theory Spec2Isabelle
  imports Main "HOL-Library.AList"
begin

section \<open>JavaScript values, errors and completions\<close>

text \<open>
  The values that reach the setters of the response prototype. A number with an integral
  value is \<open>JNum n\<close>; \<open>JNaN\<close> is NaN and \<open>JNonInt\<close> stands for every other number
  without an integral value (a fraction or an infinity). A string is the list of the bytes of
  its UTF-8 encoding, so that \<open>Buffer.byteLength\<close> is \<open>length\<close>. A buffer is its bytes, a
  stream is known by its identity, \<open>JObject\<close> is any other object.
\<close>

datatype jsval =
    JUndefined
  | JNull
  | JBool bool
  | JNum int
  | JNaN
  | JNonInt
  | JStr string
  | JBuffer string
  | JStream nat
  | JObject

text \<open>
  The errors thrown: the two kinds the status setter throws, and the error of the transport
  when a header is written or removed after the headers were sent.
\<close>

datatype js_error = TypeError | RangeError | HeadersSentError

text \<open>How a call ends: it returns, or it throws with the state as it is at the throw.\<close>

datatype completion = Normal | Throw js_error

fun typeof :: "jsval \<Rightarrow> string" where
  "typeof JUndefined = ''undefined''"
| "typeof JNull = ''object''"
| "typeof (JBool b) = ''boolean''"
| "typeof (JNum n) = ''number''"
| "typeof JNaN = ''number''"
| "typeof JNonInt = ''number''"
| "typeof (JStr s) = ''string''"
| "typeof (JBuffer b) = ''object''"
| "typeof (JStream i) = ''object''"
| "typeof JObject = ''object''"

text \<open>Truthiness, as \<open>if (v)\<close>, \<open>!v\<close> and \<open>a && b\<close> read a value.\<close>

fun truthy :: "jsval \<Rightarrow> bool" where
  "truthy JUndefined = False"
| "truthy JNull = False"
| "truthy (JBool b) = b"
| "truthy (JNum n) = (n \<noteq> 0)"
| "truthy JNaN = False"
| "truthy JNonInt = True"
| "truthy (JStr s) = (s \<noteq> [])"
| "truthy (JBuffer b) = True"
| "truthy (JStream i) = True"
| "truthy JObject = True"

text \<open>\<open>null == v\<close>: true of null and of undefined only.\<close>

fun nullish :: "jsval \<Rightarrow> bool" where
  "nullish JUndefined = True"
| "nullish JNull = True"
| "nullish v = False"

fun isStream :: "jsval \<Rightarrow> bool" where
  "isStream (JStream i) = True"
| "isStream v = False"

fun isBuffer :: "jsval \<Rightarrow> bool" where
  "isBuffer (JBuffer b) = True"
| "isBuffer v = False"

subsection \<open>Strings\<close>

text \<open>\<open>toLowerCase\<close> on the ASCII letters; header field names are ASCII tokens.\<close>

definition lower_char :: "char \<Rightarrow> char" where
  "lower_char c =
     (case map_of (zip ''ABCDEFGHIJKLMNOPQRSTUVWXYZ'' ''abcdefghijklmnopqrstuvwxyz'') c of
        Some l \<Rightarrow> l
      | None \<Rightarrow> c)"

definition toLowerCase :: "string \<Rightarrow> string" where
  "toLowerCase s = map lower_char s"

text \<open>\<open>String(n)\<close> of a number that is a natural number: its decimal digits.\<close>

fun decimal :: "nat \<Rightarrow> string" where
  "decimal n =
     (if n < 10 then [''0123456789'' ! n]
      else decimal (n div 10) @ [''0123456789'' ! (n mod 10)])"

declare decimal.simps [simp del]

text \<open>
  The class \<open>\s\<close> of a regular expression, on UTF-8 bytes: \<open>white_space s\<close> is the number of
  bytes of the white-space character at the head of \<open>s\<close>, and 0 when \<open>s\<close> does not start
  with one. The characters are U+0009 to U+000D, U+0020, U+00A0, U+1680, U+2000 to U+200A,
  U+2028, U+2029, U+202F, U+205F, U+3000 and U+FEFF.
\<close>

definition ascii_space :: "char \<Rightarrow> bool" where
  "ascii_space c \<longleftrightarrow>
     c = CHR 0x09 \<or> c = CHR 0x0A \<or> c = CHR 0x0B \<or> c = CHR 0x0C \<or> c = CHR 0x0D \<or> c = CHR 0x20"

definition general_punctuation_space :: "char \<Rightarrow> bool" where
  "general_punctuation_space c \<longleftrightarrow>
     c = CHR 0x80 \<or> c = CHR 0x81 \<or> c = CHR 0x82 \<or> c = CHR 0x83 \<or> c = CHR 0x84 \<or>
     c = CHR 0x85 \<or> c = CHR 0x86 \<or> c = CHR 0x87 \<or> c = CHR 0x88 \<or> c = CHR 0x89 \<or>
     c = CHR 0x8A \<or> c = CHR 0xA8 \<or> c = CHR 0xA9 \<or> c = CHR 0xAF"

fun white_space :: "string \<Rightarrow> nat" where
  "white_space (a # b # c # s) =
     (if ascii_space a then 1
      else if a = CHR 0xC2 \<and> b = CHR 0xA0 then 2
      else if a = CHR 0xE1 \<and> b = CHR 0x9A \<and> c = CHR 0x80 then 3
      else if a = CHR 0xE2 \<and> b = CHR 0x80 \<and> general_punctuation_space c then 3
      else if a = CHR 0xE2 \<and> b = CHR 0x81 \<and> c = CHR 0x9F then 3
      else if a = CHR 0xE3 \<and> b = CHR 0x80 \<and> c = CHR 0x80 then 3
      else if a = CHR 0xEF \<and> b = CHR 0xBB \<and> c = CHR 0xBF then 3
      else 0)"
| "white_space [a, b] =
     (if ascii_space a then 1 else if a = CHR 0xC2 \<and> b = CHR 0xA0 then 2 else 0)"
| "white_space [a] = (if ascii_space a then 1 else 0)"
| "white_space [] = 0"

text \<open>\<open>\s*\<close> at the head of a string: what is left after the longest run of white space.\<close>

function skip_space :: "string \<Rightarrow> string" where
  "skip_space s = (if white_space s = 0 then s else skip_space (drop (white_space s) s))"
  by pat_completeness auto
termination
proof (relation "measure length")
  show "wf (measure length)" by simp
next
  fix s :: string
  assume "white_space s \<noteq> 0"
  then have "s \<noteq> []" by auto
  with \<open>white_space s \<noteq> 0\<close> show "(drop (white_space s) s, s) \<in> measure length" by simp
qed

declare skip_space.simps [simp del]

text \<open>\<open>/^\s*</.test(val)\<close>: the body looks like markup.\<close>

definition looks_like_markup :: "string \<Rightarrow> bool" where
  "looks_like_markup s = (case skip_space s of [] \<Rightarrow> False | c # cs \<Rightarrow> c = CHR ''<'')"


section \<open>What the prototypes require\<close>

text \<open>
  A response header value as the transport stores it: \<open>String(val)\<close>, or \<open>val.map(String)\<close>
  for an array.
\<close>

datatype hval = HStr string | HArr "string list"

text \<open>
  The packages that \<open>response.js\<close>, \<open>request.js\<close> and \<open>context.js\<close> require are not part of
  the repository; what the source reads from them is a parameter of the model.
  \<^item> \<open>status_message\<close>, \<open>status_empty\<close>, \<open>status_redirect\<close>: \<open>statuses[code]\<close>,
    \<open>statuses.empty[code]\<close> and \<open>statuses.redirect[code]\<close> of the package \<open>statuses\<close>, for a
    number of integral value (no other number is a key of the registry);
  \<^item> \<open>contentType\<close>: \<open>contentType\<close> of \<open>mime-types\<close>, \<open>None\<close> for its \<open>false\<close>;
  \<^item> \<open>escape\<close>: \<open>escape-html\<close>;
  \<^item> \<open>accepts\<close>: whether \<open>accepts(req).types(type)\<close> is truthy, from the request headers;
  \<^item> \<open>fresh\<close>: the package \<open>fresh\<close>, applied to the two header objects it is given
    (\<open>None\<close> is \<open>undefined\<close>);
  \<^item> \<open>vary_append\<close>: the new value of the \<open>Vary\<close> header that the package \<open>vary\<close> computes
    from the present value and the field, or the error it throws;
  \<^item> \<open>format_j\<close>: \<open>util.format('%j', v)\<close>.
\<close>

record deps =
  status_message :: "int \<Rightarrow> string option"
  status_empty :: "int \<Rightarrow> bool"
  status_redirect :: "int \<Rightarrow> bool"
  contentType :: "string \<Rightarrow> string option"
  escape :: "string \<Rightarrow> string"
  accepts :: "(string \<Rightarrow> string option) \<Rightarrow> string \<Rightarrow> bool"
  fresh :: "(string \<Rightarrow> string option) option \<Rightarrow> (string \<Rightarrow> hval option) option \<Rightarrow> js_error + bool"
  vary_append :: "hval option \<Rightarrow> string \<Rightarrow> js_error + string"
  format_j :: "jsval \<Rightarrow> string"

text \<open>\<open>statuses[code]\<close> for any value \<open>code\<close> that is a number.\<close>

fun statuses :: "deps \<Rightarrow> jsval \<Rightarrow> string option" where
  "statuses d (JNum n) = status_message d n"
| "statuses d v = None"

text \<open>A string read from a table is truthy when it is there and not empty.\<close>

fun present :: "string option \<Rightarrow> bool" where
  "present None = False"
| "present (Some s) = (s \<noteq> [])"

section \<open>The transport and the context\<close>

text \<open>
  The fields of node's \<open>http.IncomingMessage\<close> and \<open>http.ServerResponse\<close> that the source
  reads and writes. \<open>header_fields\<close> are the response headers, lower-cased name and value,
  in the order they were first set. \<open>socket_writable\<close> is \<open>None\<close> when \<open>res.socket\<close> is not
  set. \<open>ended\<close> holds the payload of \<open>res.end(payload)\<close> once it was called.
\<close>

record incoming_message =
  req_method :: string
  req_headers :: "string \<Rightarrow> string option"
  httpVersionMajor :: nat
  remoteAddress :: string

record server_response =
  statusCode :: int
  statusMessage :: "string option"
  headersSent :: bool
  header_fields :: "(string \<times> hval) list"
  finished :: bool
  socket_writable :: "bool option"
  ended :: "string option"

text \<open>
  An error object, with the attributes \<open>onerror\<close> reads and the one it writes. \<open>err_code\<close> is
  \<open>error.code\<close> when it is a string, \<open>err_expose\<close> the truth value of \<open>error.expose\<close>, and
  \<open>err_headers\<close> the entries of \<open>error.headers\<close>, none when it is undefined.
\<close>

record error_object =
  err_message :: string
  err_status :: jsval
  err_code :: "string option"
  err_expose :: bool
  err_headers :: "(string \<times> hval) list"
  err_headerSent :: bool


text \<open>
  \<open>createContext\<close> ties one context, one request and one response to the same \<open>req\<close>, \<open>res\<close>
  and application: each reaches the others. The model keeps them in one record:
  \<open>proxy\<close> is \<open>app.proxy\<close>, \<open>explicitStatus\<close> and \<open>body\<close> are \<open>response._explicitStatus\<close>
  and \<open>response._body\<close>, \<open>destroyed\<close> lists the streams given to \<open>destroy\<close> and \<open>emitted\<close>
  the errors given to \<open>app.emit('error', ...)\<close>, the latest first.
\<close>

record ctx =
  proxy :: bool
  req :: incoming_message
  res :: server_response
  explicitStatus :: bool
  body :: jsval
  destroyed :: "nat list"
  emitted :: "error_object list"

text \<open>\<open>createContext(req, res)\<close> of \<open>application.js\<close>, for an application with \<open>app.proxy = p\<close>.\<close>

definition createContext :: "bool \<Rightarrow> incoming_message \<Rightarrow> server_response \<Rightarrow> ctx" where
  "createContext p rq rs =
     \<lparr>proxy = p, req = rq, res = rs\<lparr>statusCode := 404\<rparr>, explicitStatus = False,
      body = JNull, destroyed = [], emitted = []\<rparr>"

text \<open>Sequencing: the next statement runs on the state the previous one left, unless it threw.\<close>

definition and_then :: "completion \<times> ctx \<Rightarrow> (ctx \<Rightarrow> completion \<times> ctx) \<Rightarrow> completion \<times> ctx" where
  "and_then m f = (case m of (Normal, c) \<Rightarrow> f c | (Throw e, c) \<Rightarrow> (Throw e, c))"

subsection \<open>The transport's header operations\<close>

text \<open>
  \<open>res.setHeader(name, value)\<close> throws once the headers are sent; it then checks the name,
  which must be a token of HTTP and not empty, and the value, in which every character must be
  a tab or lie in U+0020 to U+007E or in U+0080 to U+00FF (a line feed, for one, is
  refused), and throws a \<open>TypeError\<close> when a check fails; else it stores the value under the
  lower-cased name. In the UTF-8 bytes of a string the characters U+0080 to U+00FF are the
  two-byte sequences that start with \<open>0xC2\<close> or \<open>0xC3\<close>. An array is checked element by
  element. \<open>res.removeHeader(name)\<close> throws once the headers are sent and checks nothing else.
\<close>

definition token_char :: "char \<Rightarrow> bool" where
  "token_char c \<longleftrightarrow>
     c \<in> set (''abcdefghijklmnopqrstuvwxyzABCDEFGHIJKLMNOPQRSTUVWXYZ0123456789''
              @ ''-_.!#$%&*+|~^'' @ [CHR 0x27, CHR 0x60])"

definition valid_header_name :: "string \<Rightarrow> bool" where
  "valid_header_name name \<longleftrightarrow> name \<noteq> [] \<and> list_all token_char name"

definition plain_char :: "char \<Rightarrow> bool" where
  "plain_char c \<longleftrightarrow> (let n = (of_char c :: nat) in n = 9 \<or> (32 \<le> n \<and> n \<le> 126))"

definition continuation_byte :: "char \<Rightarrow> bool" where
  "continuation_byte c \<longleftrightarrow> (let n = (of_char c :: nat) in 128 \<le> n \<and> n \<le> 191)"

fun valid_chars :: "string \<Rightarrow> bool" where
  "valid_chars [] = True"
| "valid_chars [c] = plain_char c"
| "valid_chars (c # b # s) =
     (if plain_char c then valid_chars (b # s)
      else if (c = CHR 0xC2 \<or> c = CHR 0xC3) \<and> continuation_byte b then valid_chars s
      else False)"

fun valid_header_value :: "hval \<Rightarrow> bool" where
  "valid_header_value (HStr s) = valid_chars s"
| "valid_header_value (HArr xs) = list_all valid_chars xs"

definition res_setHeader :: "string \<Rightarrow> hval \<Rightarrow> ctx \<Rightarrow> completion \<times> ctx" where
  "res_setHeader name val c =
     (if headersSent (res c) then (Throw HeadersSentError, c)
      else if \<not> valid_header_name name then (Throw TypeError, c)
      else if \<not> valid_header_value val then (Throw TypeError, c)
      else (Normal, c\<lparr>res := (res c)\<lparr>header_fields := AList.update (toLowerCase name) val (header_fields (res c))\<rparr>\<rparr>))"

definition res_removeHeader :: "string \<Rightarrow> ctx \<Rightarrow> completion \<times> ctx" where
  "res_removeHeader name c =
     (if headersSent (res c) then (Throw HeadersSentError, c)
      else (Normal, c\<lparr>res := (res c)\<lparr>header_fields := AList.delete (toLowerCase name) (header_fields (res c))\<rparr>\<rparr>))"


section \<open>The response prototype (\<open>lib/response.js\<close>)\<close>


definition get_headers :: "ctx \<Rightarrow> string \<Rightarrow> hval option" where
  "get_headers c = map_of (header_fields (res c))"

definition get_headersSent :: "ctx \<Rightarrow> bool" where
  "get_headersSent c = headersSent (res c)"

definition get_status :: "ctx \<Rightarrow> int" where
  "get_status c = statusCode (res c)"

definition get_body :: "ctx \<Rightarrow> jsval" where
  "get_body c = body c"

text \<open>\<open>flushHeaders()\<close> puts the headers on the wire.\<close>

definition flushHeaders :: "ctx \<Rightarrow> ctx" where
  "flushHeaders c = c\<lparr>res := (res c)\<lparr>headersSent := True\<rparr>\<rparr>"

text \<open>A header value is truthy unless it is the empty string; an array always is.\<close>

fun truthy_header :: "hval option \<Rightarrow> bool" where
  "truthy_header None = False"
| "truthy_header (Some (HStr s)) = (s \<noteq> [])"
| "truthy_header (Some (HArr xs)) = True"

text \<open>\<open>get(field)\<close>: \<open>this.headers[field.toLowerCase()] || ''\<close>.\<close>

definition response_get :: "string \<Rightarrow> ctx \<Rightarrow> hval" where
  "response_get field c =
     (let v = get_headers c (toLowerCase field)
      in if truthy_header v then the v else HStr [])"

text \<open>
  \<open>set(field, val)\<close> with two arguments, and \<open>set(fields)\<close> with an object, whose keys the
  loop visits in order.
\<close>

definition response_set :: "string \<Rightarrow> hval \<Rightarrow> ctx \<Rightarrow> completion \<times> ctx" where
  "response_set field val c =
     (if get_headersSent c then (Normal, c)
      else res_setHeader field val c)"

fun set_each :: "(string \<times> hval) list \<Rightarrow> ctx \<Rightarrow> completion \<times> ctx" where
  "set_each [] c = (Normal, c)"
| "set_each ((key, val) # rest) c =
     (case response_set key val c of
        (Normal, c') \<Rightarrow> set_each rest c'
      | (Throw e, c') \<Rightarrow> (Throw e, c'))"

definition response_set_object :: "(string \<times> hval) list \<Rightarrow> ctx \<Rightarrow> completion \<times> ctx" where
  "response_set_object obj c =
     (if get_headersSent c then (Normal, c)
      else set_each obj c)"

text \<open>\<open>append(field, val)\<close>; \<open>[original].concat(val)\<close> flattens an array \<open>val\<close>.\<close>

fun values_of :: "hval \<Rightarrow> string list" where
  "values_of (HStr s) = [s]"
| "values_of (HArr xs) = xs"

definition response_append :: "string \<Rightarrow> hval \<Rightarrow> ctx \<Rightarrow> completion \<times> ctx" where
  "response_append field val c =
     (if get_headersSent c then (Normal, c)
      else
        (let original = response_get field c;
             val' = (if truthy_header (Some original) then HArr (values_of original @ values_of val)
                     else val)
         in response_set field val' c))"

definition response_remove :: "string \<Rightarrow> ctx \<Rightarrow> completion \<times> ctx" where
  "response_remove field c =
     (if get_headersSent c then (Normal, c)
      else res_removeHeader field c)"

text \<open>
  \<open>vary(field)\<close>: the package reads \<open>res.getHeader('Vary')\<close> and sets the header to the value
  it computes when that is not empty.
\<close>

definition response_vary :: "deps \<Rightarrow> string \<Rightarrow> ctx \<Rightarrow> completion \<times> ctx" where
  "response_vary d field c =
     (if get_headersSent c then (Normal, c)
      else
        (case vary_append d (get_headers c ''vary'') field of
           Inl e \<Rightarrow> (Throw e, c)
         | Inr v \<Rightarrow> if v \<noteq> [] then res_setHeader ''Vary'' (HStr v) c else (Normal, c)))"

text \<open>The setters \<open>length\<close>, \<open>type\<close> and \<open>message\<close>.\<close>

definition set_length :: "nat \<Rightarrow> ctx \<Rightarrow> completion \<times> ctx" where
  "set_length n c = response_set ''Content-Length'' (HStr (decimal n)) c"

definition set_type :: "deps \<Rightarrow> string \<Rightarrow> ctx \<Rightarrow> completion \<times> ctx" where
  "set_type d type c =
     (let type' = contentType d type
      in if present type' then response_set ''Content-Type'' (HStr (the type')) c
         else response_remove ''Content-Type'' c)"

definition set_message :: "string option \<Rightarrow> ctx \<Rightarrow> ctx" where
  "set_message msg c = c\<lparr>res := (res c)\<lparr>statusMessage := msg\<rparr>\<rparr>"

text \<open>\<open>destroy(stream)\<close>, and \<open>Buffer.byteLength(val)\<close> of a string or \<open>val.length\<close> of a buffer.\<close>

fun destroy :: "jsval \<Rightarrow> ctx \<Rightarrow> ctx" where
  "destroy (JStream i) c = c\<lparr>destroyed := i # destroyed c\<rparr>"
| "destroy v c = c"

fun byteLength :: "jsval \<Rightarrow> nat" where
  "byteLength (JStr s) = length s"
| "byteLength (JBuffer b) = length b"
| "byteLength v = 0"

fun text_of :: "jsval \<Rightarrow> string" where
  "text_of (JStr s) = s"
| "text_of v = []"

fun number_of :: "jsval \<Rightarrow> int" where
  "number_of (JNum n) = n"
| "number_of v = 0"

text \<open>
  The setters \<open>status\<close> and \<open>body\<close> call each other: \<open>status\<close> sets the body to null for an
  empty-body code, \<open>body\<close> sets the status to 204 or to 200. The handlers that \<open>body\<close> hangs on
  a stream (\<open>onFinished\<close>, \<open>inject\<close>) run after the call and are not part of it.
\<close>

function set_status :: "deps \<Rightarrow> jsval \<Rightarrow> ctx \<Rightarrow> completion \<times> ctx"
  and set_body :: "deps \<Rightarrow> jsval \<Rightarrow> ctx \<Rightarrow> completion \<times> ctx" where
  "set_status d code c =
     (if get_headersSent c then (Normal, c)
      else if typeof code \<noteq> ''number'' then (Throw TypeError, c)
      else if \<not> present (statuses d code) then (Throw RangeError, c)
      else
        (let c1 = c\<lparr>explicitStatus := True\<rparr>;
             c2 = c1\<lparr>res := (res c1)\<lparr>statusCode := number_of code\<rparr>\<rparr>;
             c3 = (if httpVersionMajor (req c2) < 2 then set_message (statuses d code) c2 else c2)
         in if truthy (get_body c3) \<and> status_empty d (number_of code) then set_body d JNull c3
            else (Normal, c3)))"
| "set_body d val c =
     (let original = body c;
          c1 = (if original \<noteq> val \<and> isStream original then destroy original c else c);
          c2 = c1\<lparr>body := val\<rparr>
      in if nullish val then
           and_then (if \<not> status_empty d (get_status c2) then set_status d (JNum 204) c2 else (Normal, c2))
             (\<lambda>c3. and_then (response_remove ''Content-Type'' c3)
               (\<lambda>c4. and_then (response_remove ''Content-Length'' c4)
                 (response_remove ''Transfer-Encoding'')))
         else
           and_then (if \<not> explicitStatus c2 then set_status d (JNum 200) c2 else (Normal, c2))
             (\<lambda>c3.
               (let setType = \<not> truthy_header (get_headers c3 ''content-type'')
                in if typeof val = ''string'' then
                     and_then
                       (if setType then set_type d (if looks_like_markup (text_of val) then ''html'' else ''text'') c3
                        else (Normal, c3))
                       (set_length (byteLength val))
                   else if isBuffer val then
                     and_then (if setType then set_type d ''bin'' c3 else (Normal, c3))
                       (set_length (byteLength val))
                   else if isStream val then
                     and_then (if setType then set_type d ''bin'' c3 else (Normal, c3))
                       (\<lambda>c4. if \<not> nullish original \<and> original \<noteq> val
                             then response_remove ''Content-Length'' c4 else (Normal, c4))
                   else
                     and_then (set_type d ''json'' c3) (response_remove ''Content-Length''))))"
  by pat_completeness auto

lemma res_destroy [simp]: "res (destroy v c) = res c"
  by (cases v) simp_all

termination set_status
proof (relation "measure (\<lambda>x. case x of
       Inl (d, code, c) \<Rightarrow> 2
     | Inr (d, val, c) \<Rightarrow> if nullish val \<and> status_empty d (get_status c) then 0 else 3)")
qed (auto simp: get_status_def set_message_def split: if_splits)

declare set_status.simps [simp del] set_body.simps [simp del]


section \<open>The request prototype (\<open>request.js\<close>, in \<open>src/unnamed/part_000\<close>)\<close>

text \<open>\<open>a || b\<close> on strings, where \<open>a\<close> may be undefined.\<close>

fun or_else :: "string option \<Rightarrow> string \<Rightarrow> string" where
  "or_else None t = t"
| "or_else (Some s) t = (if s \<noteq> [] then s else t)"

text \<open>\<open>get(field)\<close>, with \<open>Referrer\<close> and \<open>Referer\<close> interchangeable.\<close>

definition request_get :: "string \<Rightarrow> ctx \<Rightarrow> string" where
  "request_get field c =
     (let headers = req_headers (req c);
          field' = toLowerCase field
      in if field' = ''referer'' \<or> field' = ''referrer''
         then or_else (headers ''referrer'') (or_else (headers ''referer'') [])
         else or_else (headers field') [])"

text \<open>
  \<open>forwarded.split(/\s*,\s*/)\<close>. \<open>match_separator s\<close> matches the expression at the head of
  \<open>s\<close> and gives what follows the match. \<open>split_from piece s\<close> looks for the next match from
  each position of \<open>s\<close> in turn, \<open>piece\<close> being what was passed over since the last match.
\<close>

definition match_separator :: "string \<Rightarrow> string option" where
  "match_separator s =
     (case skip_space s of
        [] \<Rightarrow> None
      | c # t \<Rightarrow> if c = CHR '','' then Some (skip_space t) else None)"

lemma length_skip_space: "length (skip_space s) \<le> length s"
proof (induction s rule: skip_space.induct)
  case (1 s)
  show ?case
  proof (cases "white_space s = 0")
    case True
    then show ?thesis by (simp add: skip_space.simps [of s])
  next
    case False
    with 1 have "length (skip_space (drop (white_space s) s)) \<le> length (drop (white_space s) s)"
      by simp
    with False show ?thesis by (simp add: skip_space.simps [of s])
  qed
qed

lemma match_separator_shorter: "match_separator s = Some t \<Longrightarrow> length t < length s"
proof -
  assume m: "match_separator s = Some t"
  then obtain c u where su: "skip_space s = c # u" and t: "t = skip_space u"
    by (auto simp: match_separator_def split: list.splits if_splits)
  have "length t \<le> length u" using t length_skip_space [of u] by simp
  moreover have "length (c # u) \<le> length s" using su length_skip_space [of s] by simp
  ultimately show ?thesis by simp
qed

function split_from :: "string \<Rightarrow> string \<Rightarrow> string list" where
  "split_from piece [] = [piece]"
| "split_from piece (c # s) =
     (case match_separator (c # s) of
        Some t \<Rightarrow> piece # split_from [] t
      | None \<Rightarrow> split_from (piece @ [c]) s)"
  by pat_completeness auto
termination
  by (relation "measure (\<lambda>(piece, s). length s)") (auto dest: match_separator_shorter)

definition split_commas :: "string \<Rightarrow> string list" where
  "split_commas s = split_from [] s"

text \<open>The getter \<open>ips\<close>.\<close>

definition get_ips :: "ctx \<Rightarrow> string list" where
  "get_ips c =
     (if \<not> proxy c then [remoteAddress (req c)]
      else
        (let forwarded = request_get ''X-Forwarded-For'' c
         in if forwarded \<noteq> [] then split_commas forwarded else []))"

text \<open>
  The getter \<open>fresh\<close> reads three properties that no object of the repository has:
  \<open>this.res.status\<close> (the transport response has \<open>statusCode\<close>), \<open>this.header\<close> and
  \<open>this.response.header\<close> (the two prototypes define \<open>headers\<close>). Reading them gives
  undefined, which is \<open>None\<close> here; a comparison of undefined with a number is false.
\<close>

definition res_status :: "server_response \<Rightarrow> int option" where
  "res_status r = None"

definition request_header :: "ctx \<Rightarrow> (string \<Rightarrow> string option) option" where
  "request_header c = None"

definition response_header :: "ctx \<Rightarrow> (string \<Rightarrow> hval option) option" where
  "response_header c = None"

definition get_fresh :: "deps \<Rightarrow> ctx \<Rightarrow> js_error + bool" where
  "get_fresh d c =
     (let method = req_method (req c);
          status = res_status (res c)
      in if method \<noteq> ''GET'' \<and> method \<noteq> ''HEAD'' then Inr False
         else if (case status of
                    None \<Rightarrow> False
                  | Some s \<Rightarrow> (200 \<le> s \<and> s < 300) \<or> 304 = s)
         then fresh d (request_header c) (response_header c)
         else Inr False)"

text \<open>\<open>accepts(type)\<close>, read for its truth value.\<close>

definition request_accepts :: "deps \<Rightarrow> string \<Rightarrow> ctx \<Rightarrow> bool" where
  "request_accepts d type c = accepts d (req_headers (req c)) type"

section \<open>\<open>redirect\<close> of the response prototype\<close>

text \<open>\<open>alt\<close> is \<open>None\<close> when the call gives no second argument.\<close>

definition redirect :: "deps \<Rightarrow> string \<Rightarrow> string option \<Rightarrow> ctx \<Rightarrow> completion \<times> ctx" where
  "redirect d url alt c =
     (let url1 = (if url = ''back'' then or_else (Some (request_get ''Referrer'' c)) (or_else alt ''/'')
                  else url)
      in and_then (response_set ''Location'' (HStr url1) c)
           (\<lambda>c1. and_then
                   (if \<not> status_redirect d (get_status c1) then set_status d (JNum 302) c1
                    else (Normal, c1))
              (\<lambda>c2. if request_accepts d ''html'' c2 then
                      (let url2 = escape d url1
                       in and_then (set_type d ''html'' c2)
                            (set_body d
                               (JStr (''Redirecting to <a href='' @ [CHR 0x22] @ url2 @ [CHR 0x22]
                                      @ ''>'' @ url2 @ ''</a>.''))))
                    else
                      and_then (set_type d ''text'' c2)
                        (set_body d (JStr (''Redirecting to '' @ url1 @ ''.''))))))"

section \<open>The context prototype (\<open>context.js\<close>, in \<open>src/unnamed/part_000\<close>): \<open>onerror\<close>\<close>










section \<open>An instance of the parameters\<close>

text \<open>
  For the closed examples: entries of the registry of \<open>statuses\<close> and of the table of
  \<open>mime-types\<close>, \<open>escape-html\<close>, and small stand-ins for the negotiation of \<open>accepts\<close> (a
  request with no \<open>Accept\<close> header accepts everything), for \<open>fresh\<close> (the \<open>ETag\<close> equals
  \<open>If-None-Match\<close>) and for \<open>vary\<close>.
\<close>

definition codes :: "(int \<times> string) list" where
  "codes =
     [(100, ''Continue''), (101, ''Switching Protocols''), (102, ''Processing''),
      (200, ''OK''), (201, ''Created''), (202, ''Accepted''),
      (203, ''Non-Authoritative Information''), (204, ''No Content''), (205, ''Reset Content''),
      (206, ''Partial Content''), (207, ''Multi-Status''), (208, ''Already Reported''),
      (226, ''IM Used''), (300, ''Multiple Choices''), (301, ''Moved Permanently''),
      (302, ''Found''), (303, ''See Other''), (304, ''Not Modified''), (305, ''Use Proxy''),
      (307, ''Temporary Redirect''), (308, ''Permanent Redirect''), (400, ''Bad Request''),
      (401, ''Unauthorized''), (402, ''Payment Required''), (403, ''Forbidden''),
      (404, ''Not Found''), (405, ''Method Not Allowed''), (406, ''Not Acceptable''),
      (407, ''Proxy Authentication Required''), (408, ''Request Timeout''), (409, ''Conflict''),
      (410, ''Gone''), (411, ''Length Required''), (412, ''Precondition Failed''),
      (413, ''Payload Too Large''), (414, ''URI Too Long''), (415, ''Unsupported Media Type''),
      (416, ''Range Not Satisfiable''), (417, ''Expectation Failed''), (422, ''Unprocessable Entity''),
      (423, ''Locked''), (424, ''Failed Dependency''), (426, ''Upgrade Required''),
      (428, ''Precondition Required''), (429, ''Too Many Requests''),
      (431, ''Request Header Fields Too Large''), (451, ''Unavailable For Legal Reasons''),
      (500, ''Internal Server Error''), (501, ''Not Implemented''), (502, ''Bad Gateway''),
      (503, ''Service Unavailable''), (504, ''Gateway Timeout''),
      (505, ''HTTP Version Not Supported''), (506, ''Variant Also Negotiates''),
      (507, ''Insufficient Storage''), (508, ''Loop Detected''), (510, ''Not Extended''),
      (511, ''Network Authentication Required'')]"

definition mime_types :: "(string \<times> string) list" where
  "mime_types =
     [(''html'', ''text/html; charset=utf-8''), (''text'', ''text/plain; charset=utf-8''),
      (''bin'', ''application/octet-stream''), (''json'', ''application/json; charset=utf-8'')]"

definition escape_char :: "char \<Rightarrow> string" where
  "escape_char c =
     (if c = CHR 0x22 then ''&quot;''
      else if c = CHR ''&'' then ''&amp;''
      else if c = CHR 0x27 then ''&#39;''
      else if c = CHR ''<'' then ''&lt;''
      else if c = CHR ''>'' then ''&gt;''
      else [c])"

definition escape_html :: "string \<Rightarrow> string" where
  "escape_html s = concat (map escape_char s)"

definition etag_matches :: "(string \<Rightarrow> string option) option \<Rightarrow> (string \<Rightarrow> hval option) option \<Rightarrow> js_error + bool" where
  "etag_matches reqHeaders resHeaders =
     (case (reqHeaders, resHeaders) of
        (Some rq, Some rs) \<Rightarrow>
          Inr (case rq ''if-none-match'' of
                 None \<Rightarrow> False
               | Some tag \<Rightarrow> rs ''etag'' = Some (HStr tag))
      | _ \<Rightarrow> Inl TypeError)"

definition packages :: deps where
  "packages =
     \<lparr>status_message = map_of codes,
      status_empty = (\<lambda>n. n = 204 \<or> n = 205 \<or> n = 304),
      status_redirect = (\<lambda>n. n = 300 \<or> n = 301 \<or> n = 302 \<or> n = 303 \<or> n = 305 \<or> n = 307 \<or> n = 308),
      contentType = map_of mime_types,
      escape = escape_html,
      accepts = (\<lambda>headers type. case headers ''accept'' of
                   None \<Rightarrow> True
                 | Some a \<Rightarrow> a = ''*/*'' \<or> (a = ''text/html'' \<and> type = ''html'')),
      fresh = etag_matches,
      vary_append = (\<lambda>current field. Inr field),
      format_j = (\<lambda>v. ''{}'')\<rparr>"

text \<open>A request and a transport response as the server hands them to the listener.\<close>

definition a_request :: incoming_message where
  "a_request =
     \<lparr>req_method = ''GET'', req_headers = Map.empty, httpVersionMajor = 1,
      remoteAddress = ''10.0.0.7''\<rparr>"

definition a_response :: server_response where
  "a_response =
     \<lparr>statusCode = 200, statusMessage = None, headersSent = False, header_fields = [],
      finished = False, socket_writable = Some True, ended = None\<rparr>"

definition new_ctx :: ctx where
  "new_ctx = createContext False a_request a_response"

text \<open>
  The context after \<open>body = 'hello'\<close>, the same after \<open>flushHeaders()\<close>, and after
  \<open>res.end('hello')\<close>.
\<close>

definition text_ctx :: ctx where
  "text_ctx = snd (set_body packages (JStr ''hello'') new_ctx)"

definition sent_ctx :: ctx where
  "sent_ctx = flushHeaders text_ctx"



text \<open>
  A context for a request that came from \<open>/prev\<close> and accepts \<open>text/html\<close>, and one for a
  request that accepts \<open>application/json\<close> only.
\<close>

definition referred_ctx :: ctx where
  "referred_ctx =
     createContext False
       (a_request\<lparr>req_headers := map_of [(''referer'', ''/prev''), (''accept'', ''text/html'')]\<rparr>)
       a_response"

definition api_ctx :: ctx where
  "api_ctx =
     createContext False
       (a_request\<lparr>req_headers := map_of [(''accept'', ''application/json'')]\<rparr>)
       a_response"

text \<open>
  Two contexts of an application that trusts proxies, one for a request that carries
  \<open>X-Forwarded-For\<close> and one for a request without it.
\<close>

definition proxied_ctx :: ctx where
  "proxied_ctx =
     createContext True
       (a_request\<lparr>req_headers := map_of [(''x-forwarded-for'', ''client, proxy1 ,proxy2'')]\<rparr>)
       a_response"

definition direct_ctx :: ctx where
  "direct_ctx = createContext True a_request a_response"

text \<open>
  A conditional \<open>GET\<close>: the request carries \<open>If-None-Match: "abc"\<close>, and the middleware sets
  the status 200 and \<open>ETag: "abc"\<close>.
\<close>

definition conditional_ctx :: ctx where
  "conditional_ctx =
     snd (response_set ''ETag'' (HStr ([CHR 0x22] @ ''abc'' @ [CHR 0x22]))
       (snd (set_status packages (JNum 200)
         (createContext False
            (a_request\<lparr>req_headers := map_of [(''if-none-match'', [CHR 0x22] @ ''abc'' @ [CHR 0x22])]\<rparr>)
            a_response))))"


section \<open>Lemmas\<close>

lemma and_then_Normal [simp]: "and_then (Normal, c) f = f c"
  by (simp add: and_then_def)

lemma and_then_Throw [simp]: "and_then (Throw e, c) f = (Throw e, c)"
  by (simp add: and_then_def)

lemma and_then_fst: "fst m = Normal \<Longrightarrow> and_then m f = f (snd m)"
  by (cases m) simp

lemma lower_names [simp]:
  "toLowerCase ''Content-Type'' = ''content-type''"
  "toLowerCase ''Content-Length'' = ''content-length''"
  "toLowerCase ''Transfer-Encoding'' = ''transfer-encoding''"
  "toLowerCase ''Location'' = ''location''"
  "toLowerCase ''Referrer'' = ''referrer''"
  "toLowerCase ''X-Forwarded-For'' = ''x-forwarded-for''"
  by (simp_all add: toLowerCase_def lower_char_def)

lemma destroy_fields [simp]:
  "explicitStatus (destroy v c) = explicitStatus c"
  "req (destroy v c) = req c"
  "body (destroy v c) = body c"
  "proxy (destroy v c) = proxy c"
  "emitted (destroy v c) = emitted c"
  by (cases v; simp)+

subsection \<open>The header operations while the headers are not sent\<close>

lemma valid_names [simp]:
  "valid_header_name ''Content-Type''"
  "valid_header_name ''Content-Length''"
  "valid_header_name ''Location''"
  by (simp_all add: valid_header_name_def token_char_def)

lemma plain_chars_valid: "list_all plain_char s \<Longrightarrow> valid_chars s"
  by (induction s rule: valid_chars.induct) simp_all

lemma digits_decimal: "set (decimal n) \<subseteq> set ''0123456789''"
proof (induction n rule: decimal.induct)
  case (1 n)
  have digit: "''0123456789'' ! k \<in> set ''0123456789''" if "k < 10" for k
    using that by (intro nth_mem) simp
  show ?case
  proof (cases "n < 10")
    case True
    then show ?thesis using digit [of n] by (simp add: decimal.simps [of n])
  next
    case False
    have "n mod 10 < 10" by simp
    with False 1 digit [of "n mod 10"] show ?thesis by (simp add: decimal.simps [of n])
  qed
qed

lemma valid_decimal [simp]: "valid_chars (decimal n)"
proof -
  have "plain_char c" if "c \<in> set ''0123456789''" for c
    using that by (auto simp: plain_char_def)
  then have "list_all plain_char (decimal n)"
    using digits_decimal [of n] by (auto simp: list_all_iff)
  then show ?thesis by (rule plain_chars_valid)
qed

lemma response_set_open:
  "\<not> headersSent (res c) \<Longrightarrow> valid_header_name field \<Longrightarrow> valid_header_value val \<Longrightarrow>
   response_set field val c =
     (Normal, c\<lparr>res := (res c)\<lparr>header_fields :=
        AList.update (toLowerCase field) val (header_fields (res c))\<rparr>\<rparr>)"
  by (simp add: response_set_def get_headersSent_def res_setHeader_def)

lemma response_set_refused:
  "\<not> headersSent (res c) \<Longrightarrow> \<not> (valid_header_name field \<and> valid_header_value val) \<Longrightarrow>
   response_set field val c = (Throw TypeError, c)"
  by (auto simp: response_set_def get_headersSent_def res_setHeader_def)

lemma response_remove_open:
  "\<not> headersSent (res c) \<Longrightarrow>
   response_remove field c =
     (Normal, c\<lparr>res := (res c)\<lparr>header_fields :=
        AList.delete (toLowerCase field) (header_fields (res c))\<rparr>\<rparr>)"
  by (simp add: response_remove_def get_headersSent_def res_removeHeader_def)

lemma set_type_open:
  "\<not> headersSent (res c) \<Longrightarrow>
   (present (contentType d t) \<Longrightarrow> valid_header_value (HStr (the (contentType d t)))) \<Longrightarrow>
   set_type d t c =
     (Normal, c\<lparr>res := (res c)\<lparr>header_fields :=
        (if present (contentType d t) then AList.update ''content-type'' (HStr (the (contentType d t)))
         else AList.delete ''content-type'') (header_fields (res c))\<rparr>\<rparr>)"
  by (simp add: set_type_def response_set_open response_remove_open)

lemma set_length_open:
  "\<not> headersSent (res c) \<Longrightarrow>
   set_length n c =
     (Normal, c\<lparr>res := (res c)\<lparr>header_fields :=
        AList.update ''content-length'' (HStr (decimal n)) (header_fields (res c))\<rparr>\<rparr>)"
  by (simp add: set_length_def response_set_open)

lemmas open_simps = response_remove_open response_set_open set_type_open set_length_open
  get_status_def get_body_def get_headers_def get_headersSent_def Let_def set_message_def
  update_conv' delete_conv'

subsection \<open>The two setters while the headers are not sent\<close>

text \<open>\<open>body = null\<close> when the status is an empty-body status already.\<close>

lemma set_body_null_empty:
  assumes "\<not> headersSent (res c)" "nullish v" "status_empty d (statusCode (res c))"
  defines "r \<equiv> set_body d v c"
  shows "fst r = Normal"
    and "statusCode (res (snd r)) = statusCode (res c)"
    and "\<not> headersSent (res (snd r))"
    and "map_of (header_fields (res (snd r))) =
           (map_of (header_fields (res c)))(''content-type'' := None, ''content-length'' := None,
              ''transfer-encoding'' := None)"
    and "body (snd r) = v"
    and "explicitStatus (snd r) = explicitStatus c"
    and "req (snd r) = req c"
  using assms(1-3) unfolding r_def
  by (simp_all add: set_body.simps [of d v c] open_simps)

text \<open>\<open>status = n\<close> for a registered code.\<close>

lemma set_status_open:
  assumes "\<not> headersSent (res c)" "present (status_message d n)"
  defines "r \<equiv> set_status d (JNum n) c"
  shows "fst r = Normal"
    and "statusCode (res (snd r)) = n"
    and "\<not> headersSent (res (snd r))"
    and "explicitStatus (snd r)"
    and "body (snd r) = (if truthy (body c) \<and> status_empty d n then JNull else body c)"
    and "req (snd r) = req c"
    and "map_of (header_fields (res (snd r))) =
          (if truthy (body c) \<and> status_empty d n
           then (map_of (header_fields (res c)))(''content-type'' := None, ''content-length'' := None,
              ''transfer-encoding'' := None)
           else map_of (header_fields (res c)))"
proof -
  define c3 where "c3 = c\<lparr>explicitStatus := True,
               res := (res c)\<lparr>statusCode := n,
                  statusMessage := (if httpVersionMajor (req c) < 2 then status_message d n
                                    else statusMessage (res c))\<rparr>\<rparr>"
  have r: "r = (if truthy (body c) \<and> status_empty d n then set_body d JNull c3 else (Normal, c3))"
    using assms(1,2) unfolding r_def c3_def
    by (simp add: set_status.simps [of d "JNum n" c] get_headersSent_def Let_def set_message_def
        get_body_def)
  have c3: "\<not> headersSent (res c3)" "statusCode (res c3) = n" "body c3 = body c"
    "explicitStatus c3" "req c3 = req c" "header_fields (res c3) = header_fields (res c)"
    using assms(1) by (simp_all add: c3_def)
  note leaf = set_body_null_empty [of c3 JNull d]
  show "fst r = Normal" using r c3 leaf(1) by simp
  show "statusCode (res (snd r)) = n" using r c3 leaf(2) by simp
  show "\<not> headersSent (res (snd r))" using r c3 leaf(3) by simp
  show "explicitStatus (snd r)" using r c3 leaf(6) by simp
  show "body (snd r) = (if truthy (body c) \<and> status_empty d n then JNull else body c)"
    using r c3 leaf(5) by simp
  show "req (snd r) = req c" using r c3 leaf(7) by simp
  show "map_of (header_fields (res (snd r))) =
          (if truthy (body c) \<and> status_empty d n
           then (map_of (header_fields (res c)))(''content-type'' := None, ''content-length'' := None,
              ''transfer-encoding'' := None)
           else map_of (header_fields (res c)))"
    using r c3 leaf(4) by simp
qed

text \<open>\<open>body = null\<close> and \<open>body = undefined\<close>.\<close>

lemma set_body_null_open:
  assumes "\<not> headersSent (res c)" "nullish v"
    and "status_empty d (statusCode (res c)) \<or> present (status_message d 204)"
  defines "r \<equiv> set_body d v c"
  shows "fst r = Normal \<and>
     statusCode (res (snd r)) =
       (if status_empty d (statusCode (res c)) then statusCode (res c) else 204) \<and>
     \<not> headersSent (res (snd r)) \<and>
     map_of (header_fields (res (snd r))) =
           (map_of (header_fields (res c)))(''content-type'' := None, ''content-length'' := None,
              ''transfer-encoding'' := None) \<and>
     body (snd r) = v \<and> req (snd r) = req c"
proof (cases "status_empty d (statusCode (res c))")
  case True
  note leaf = set_body_null_empty [OF assms(1,2) True]
  show ?thesis using leaf True unfolding r_def by simp
next
  case False
  with assms(3) have reg: "present (status_message d 204)" by simp
  define c2 where
    "c2 = (if body c \<noteq> v \<and> isStream (body c) then destroy (body c) c else c)\<lparr>body := v\<rparr>"
  have c2: "\<not> headersSent (res c2)" "body c2 = v" "req c2 = req c" "res c2 = res c"
    using assms(1) by (simp_all add: c2_def)
  note st = set_status_open [of c2 d 204, OF c2(1) reg]
  have falsy: "\<not> truthy v" using assms(2) by (cases v) simp_all
  define c3 where "c3 = snd (set_status d (JNum 204) c2)"
  have r: "r = and_then (response_remove ''Content-Type'' c3)
             (\<lambda>c4. and_then (response_remove ''Content-Length'' c4)
               (response_remove ''Transfer-Encoding''))"
    using False assms(2) st(1) unfolding r_def c3_def c2_def
    by (simp add: set_body.simps [of d v c] Let_def get_status_def and_then_fst)
  have c3: "\<not> headersSent (res c3)" "statusCode (res c3) = 204" "body c3 = v" "req c3 = req c"
    "map_of (header_fields (res c3)) = map_of (header_fields (res c))"
    using st c2 falsy unfolding c3_def by simp_all
  show ?thesis
    using r c3 False by (simp add: open_simps)
qed

text \<open>
  \<open>body = val\<close> for a value that is neither null nor undefined; \<open>typed t h\<close> are the headers
  \<open>h\<close> after \<open>type = t\<close>.
\<close>

lemma set_body_value_open:
  fixes d val c
  defines "kind \<equiv> (if typeof val = ''string''
                     then (if looks_like_markup (text_of val) then ''html'' else ''text'')
                     else if isBuffer val \<or> isStream val then ''bin'' else ''json'')"
  assumes o: "\<not> headersSent (res c)" and nn: "\<not> nullish val"
    and ex: "explicitStatus c \<or> (present (status_message d 200) \<and> \<not> status_empty d 200)"
    and mime: "present (contentType d kind) \<Longrightarrow> valid_header_value (HStr (the (contentType d kind)))"
  defines "r \<equiv> set_body d val c"
    and "old \<equiv> map_of (header_fields (res c))"
    and "typed \<equiv> \<lambda>t h. if present (contentType d t)
                        then h(''content-type'' \<mapsto> HStr (the (contentType d t)))
                        else h(''content-type'' := None)"
  shows "fst r = Normal \<and>
     statusCode (res (snd r)) = (if explicitStatus c then statusCode (res c) else 200) \<and>
     \<not> headersSent (res (snd r)) \<and>
     body (snd r) = val \<and> req (snd r) = req c \<and>
     map_of (header_fields (res (snd r))) =
       (let setType = \<not> truthy_header (old ''content-type'')
        in if typeof val = ''string'' then
             ((if setType then typed (if looks_like_markup (text_of val) then ''html'' else ''text'') old
               else old))
               (''content-length'' \<mapsto> HStr (decimal (byteLength val)))
           else if isBuffer val then
             ((if setType then typed ''bin'' old else old))
               (''content-length'' \<mapsto> HStr (decimal (byteLength val)))
           else if isStream val then
             (if \<not> nullish (body c) \<and> body c \<noteq> val
              then ((if setType then typed ''bin'' old else old))(''content-length'' := None)
              else (if setType then typed ''bin'' old else old))
           else (typed ''json'' old)(''content-length'' := None))"
proof -
  define c2 where
    "c2 = (if body c \<noteq> val \<and> isStream (body c) then destroy (body c) c else c)\<lparr>body := val\<rparr>"
  have c2: "\<not> headersSent (res c2)" "body c2 = val" "req c2 = req c" "res c2 = res c"
    "explicitStatus c2 = explicitStatus c"
    using o by (simp_all add: c2_def)
  define m where "m = (if \<not> explicitStatus c2 then set_status d (JNum 200) c2 else (Normal, c2))"
  have m: "fst m = Normal \<and> \<not> headersSent (res (snd m)) \<and> body (snd m) = val \<and>
      req (snd m) = req c \<and>
      statusCode (res (snd m)) = (if explicitStatus c then statusCode (res c) else 200) \<and>
      map_of (header_fields (res (snd m))) = old"
  proof (cases "explicitStatus c")
    case True
    then show ?thesis using c2 by (simp add: m_def old_def)
  next
    case False
    with ex have reg: "present (status_message d 200)" and ne: "\<not> status_empty d 200"
      by simp_all
    note st = set_status_open [of c2 d 200, OF c2(1) reg]
    show ?thesis using False st c2 ne by (simp add: m_def old_def)
  qed
  have r: "r = and_then m
             (\<lambda>c3.
               (let setType = \<not> truthy_header (get_headers c3 ''content-type'')
                in if typeof val = ''string'' then
                     and_then
                       (if setType
                        then set_type d (if looks_like_markup (text_of val) then ''html'' else ''text'') c3
                        else (Normal, c3))
                       (set_length (byteLength val))
                   else if isBuffer val then
                     and_then (if setType then set_type d ''bin'' c3 else (Normal, c3))
                       (set_length (byteLength val))
                   else if isStream val then
                     and_then (if setType then set_type d ''bin'' c3 else (Normal, c3))
                       (\<lambda>c4. if \<not> nullish (body c) \<and> body c \<noteq> val
                             then response_remove ''Content-Length'' c4 else (Normal, c4))
                   else
                     and_then (set_type d ''json'' c3) (response_remove ''Content-Length'')))"
    using nn unfolding r_def m_def c2_def
    by (simp add: set_body.simps [of d val c] Let_def)
  consider (html) "typeof val = ''string''" "looks_like_markup (text_of val)"
    | (plain) "typeof val = ''string''" "\<not> looks_like_markup (text_of val)"
    | (buffer) "typeof val \<noteq> ''string''" "isBuffer val"
    | (stream) "typeof val \<noteq> ''string''" "\<not> isBuffer val" "isStream val"
    | (json) "typeof val \<noteq> ''string''" "\<not> isBuffer val" "\<not> isStream val"
    by auto
  then show ?thesis
  proof cases
    case html
    with mime have "present (contentType d ''html'') \<longrightarrow>
        valid_header_value (HStr (the (contentType d ''html'')))"
      by (simp add: kind_def)
    with html show ?thesis
      unfolding r and_then_fst [OF conjunct1 [OF m]]
      using m by (simp add: open_simps typed_def)
  next
    case plain
    with mime have "present (contentType d ''text'') \<longrightarrow>
        valid_header_value (HStr (the (contentType d ''text'')))"
      by (simp add: kind_def)
    with plain show ?thesis
      unfolding r and_then_fst [OF conjunct1 [OF m]]
      using m by (simp add: open_simps typed_def)
  next
    case buffer
    with mime have "present (contentType d ''bin'') \<longrightarrow>
        valid_header_value (HStr (the (contentType d ''bin'')))"
      by (simp add: kind_def)
    with buffer show ?thesis
      unfolding r and_then_fst [OF conjunct1 [OF m]]
      using m by (simp add: open_simps typed_def)
  next
    case stream
    with mime have "present (contentType d ''bin'') \<longrightarrow>
        valid_header_value (HStr (the (contentType d ''bin'')))"
      by (simp add: kind_def)
    with stream show ?thesis
      unfolding r and_then_fst [OF conjunct1 [OF m]]
      using m by (simp add: open_simps typed_def)
  next
    case json
    with mime have "present (contentType d ''json'') \<longrightarrow>
        valid_header_value (HStr (the (contentType d ''json'')))"
      by (simp add: kind_def)
    with json show ?thesis
      unfolding r and_then_fst [OF conjunct1 [OF m]]
      using m by (simp add: open_simps typed_def)
  qed
qed

text \<open>
  Whatever the header operations do, they leave the context as it is apart from the headers:
  so does the part of \<open>body = val\<close> that follows the status.
\<close>

lemma frame_refl: "\<exists>h. c = c\<lparr>res := (res c)\<lparr>header_fields := h\<rparr>\<rparr>"
proof -
  have "c = c\<lparr>res := (res c)\<lparr>header_fields := header_fields (res c)\<rparr>\<rparr>" by simp
  then show ?thesis ..
qed

lemma response_set_frame:
  "\<exists>h. snd (response_set field val c) = c\<lparr>res := (res c)\<lparr>header_fields := h\<rparr>\<rparr>"
proof (cases "get_headersSent c \<or> \<not> valid_header_name field \<or> \<not> valid_header_value val")
  case True
  then have "snd (response_set field val c) = c"
    by (auto simp: response_set_def res_setHeader_def get_headersSent_def)
  then show ?thesis using frame_refl [of c] by simp
next
  case False
  then show ?thesis
    by (auto simp: response_set_def res_setHeader_def get_headersSent_def)
qed

lemma response_remove_frame:
  "\<exists>h. snd (response_remove field c) = c\<lparr>res := (res c)\<lparr>header_fields := h\<rparr>\<rparr>"
proof (cases "get_headersSent c")
  case True
  then have "snd (response_remove field c) = c"
    by (simp add: response_remove_def)
  then show ?thesis using frame_refl [of c] by simp
next
  case False
  then show ?thesis
    by (auto simp: response_remove_def res_removeHeader_def get_headersSent_def)
qed

lemma set_type_frame:
  "\<exists>h. snd (set_type d t c) = c\<lparr>res := (res c)\<lparr>header_fields := h\<rparr>\<rparr>"
  by (simp add: set_type_def Let_def response_set_frame response_remove_frame)

lemma set_length_frame:
  "\<exists>h. snd (set_length n c) = c\<lparr>res := (res c)\<lparr>header_fields := h\<rparr>\<rparr>"
  by (simp add: set_length_def response_set_frame)

lemma and_then_frame:
  assumes "\<exists>h. snd m = c\<lparr>res := (res c)\<lparr>header_fields := h\<rparr>\<rparr>"
    and "\<And>c'. \<exists>h. snd (f c') = c'\<lparr>res := (res c')\<lparr>header_fields := h\<rparr>\<rparr>"
  shows "\<exists>h. snd (and_then m f) = c\<lparr>res := (res c)\<lparr>header_fields := h\<rparr>\<rparr>"
proof (cases m)
  case (Pair k c1)
  from assms(1) Pair obtain h1 where c1: "c1 = c\<lparr>res := (res c)\<lparr>header_fields := h1\<rparr>\<rparr>"
    by auto
  show ?thesis
  proof (cases k)
    case Normal
    from assms(2) [of c1] obtain h2 where
      "snd (f c1) = c1\<lparr>res := (res c1)\<lparr>header_fields := h2\<rparr>\<rparr>" ..
    then have "snd (and_then m f) = c\<lparr>res := (res c)\<lparr>header_fields := h2\<rparr>\<rparr>"
      using Pair Normal c1 by simp
    then show ?thesis ..
  next
    case (Throw e)
    then have "snd (and_then m f) = c\<lparr>res := (res c)\<lparr>header_fields := h1\<rparr>\<rparr>"
      using Pair c1 by simp
    then show ?thesis ..
  qed
qed

lemma set_body_value_state:
  assumes "\<not> headersSent (res c)" "\<not> nullish val"
    and "explicitStatus c \<or> (present (status_message d 200) \<and> \<not> status_empty d 200)"
  defines "r \<equiv> set_body d val c"
  shows "statusCode (res (snd r)) = (if explicitStatus c then statusCode (res c) else 200) \<and>
     \<not> headersSent (res (snd r)) \<and> body (snd r) = val"
proof -
  define c2 where
    "c2 = (if body c \<noteq> val \<and> isStream (body c) then destroy (body c) c else c)\<lparr>body := val\<rparr>"
  have c2: "\<not> headersSent (res c2)" "body c2 = val" "res c2 = res c"
    "explicitStatus c2 = explicitStatus c"
    using assms(1) by (simp_all add: c2_def)
  define m where "m = (if \<not> explicitStatus c2 then set_status d (JNum 200) c2 else (Normal, c2))"
  have m: "fst m = Normal \<and> \<not> headersSent (res (snd m)) \<and> body (snd m) = val \<and>
      statusCode (res (snd m)) = (if explicitStatus c then statusCode (res c) else 200)"
  proof (cases "explicitStatus c")
    case True
    then show ?thesis using c2 by (simp add: m_def)
  next
    case False
    with assms(3) have reg: "present (status_message d 200)" and ne: "\<not> status_empty d 200"
      by simp_all
    note st = set_status_open [of c2 d 200, OF c2(1) reg]
    show ?thesis using False st c2 ne by (simp add: m_def)
  qed
  define rest where "rest = (\<lambda>c3.
               (let setType = \<not> truthy_header (get_headers c3 ''content-type'')
                in if typeof val = ''string'' then
                     and_then
                       (if setType
                        then set_type d (if looks_like_markup (text_of val) then ''html'' else ''text'') c3
                        else (Normal, c3))
                       (set_length (byteLength val))
                   else if isBuffer val then
                     and_then (if setType then set_type d ''bin'' c3 else (Normal, c3))
                       (set_length (byteLength val))
                   else if isStream val then
                     and_then (if setType then set_type d ''bin'' c3 else (Normal, c3))
                       (\<lambda>c4. if \<not> nullish (body c) \<and> body c \<noteq> val
                             then response_remove ''Content-Length'' c4 else (Normal, c4))
                   else
                     and_then (set_type d ''json'' c3) (response_remove ''Content-Length'')))"
  have r: "r = and_then m rest"
    using assms(2) unfolding r_def m_def c2_def rest_def
    by (simp add: set_body.simps [of d val c] Let_def)
  have "\<exists>h. snd (rest c3) = c3\<lparr>res := (res c3)\<lparr>header_fields := h\<rparr>\<rparr>" for c3
    unfolding rest_def Let_def
    by (auto intro!: and_then_frame set_type_frame set_length_frame response_remove_frame frame_refl)
  then obtain h where "snd (rest (snd m)) = (snd m)\<lparr>res := (res (snd m))\<lparr>header_fields := h\<rparr>\<rparr>"
    by blast
  then show ?thesis
    unfolding r and_then_fst [OF conjunct1 [OF m]] using m by simp
qed

subsection \<open>The example contexts\<close>

lemma new_ctx_open: "\<not> get_headersSent new_ctx"
  by (simp add: get_headersSent_def new_ctx_def createContext_def a_response_def)

lemma sent_ctx_sent: "get_headersSent sent_ctx"
  by (simp add: get_headersSent_def sent_ctx_def flushHeaders_def)

lemma packages_registry:
  "present (status_message packages 200)" "present (status_message packages 201)"
  "present (status_message packages 204)" "present (status_message packages 302)"
  "present (status_message packages 400)" "present (status_message packages 404)"
  "present (status_message packages 500)" "\<not> present (status_message packages 999)"
  "status_empty packages 204" "\<not> status_empty packages 200" "\<not> status_empty packages 404"
  by (simp_all add: packages_def codes_def)

lemma packages_mime:
  "contentType packages ''html'' = Some ''text/html; charset=utf-8''"
  "contentType packages ''text'' = Some ''text/plain; charset=utf-8''"
  "contentType packages ''bin'' = Some ''application/octet-stream''"
  "contentType packages ''json'' = Some ''application/json; charset=utf-8''"
  by (simp_all add: packages_def mime_types_def)

lemma packages_mime_accepted:
  "valid_header_value (HStr ''text/html; charset=utf-8'')"
  "valid_header_value (HStr ''text/plain; charset=utf-8'')"
  "valid_header_value (HStr ''application/octet-stream'')"
  "valid_header_value (HStr ''application/json; charset=utf-8'')"
  by code_simp+

subsection \<open>The loops over header names while the headers are not sent\<close>



subsection \<open>Splitting at commas\<close>

lemma white_space_comma: "white_space (CHR '','' # s) = 0"
proof (cases s)
  case Nil
  then show ?thesis by (simp add: ascii_space_def)
next
  case (Cons b s')
  then show ?thesis by (cases s') (simp_all add: ascii_space_def)
qed

lemma match_separator_comma: "match_separator (CHR '','' # s) = Some (skip_space s)"
  by (simp add: match_separator_def skip_space.simps [of "CHR '','' # s"] white_space_comma)

lemma split_from_no_comma:
  "CHR '','' \<notin> set piece \<Longrightarrow> \<forall>p \<in> set (split_from piece s). CHR '','' \<notin> set p"
proof (induction piece s rule: split_from.induct)
  case (1 piece)
  then show ?case by simp
next
  case (2 piece c s)
  show ?case
  proof (cases "match_separator (c # s)")
    case None
    then have "c \<noteq> CHR '',''" using match_separator_comma [of s] by auto
    with 2 None show ?thesis by simp
  next
    case (Some t)
    with 2 show ?thesis by simp
  qed
qed

subsection \<open>Freshness\<close>

text \<open>
  The getter \<open>fresh\<close> answers false for every request: the status it tests is
  \<open>this.res.status\<close>, which is undefined, so the test for 2xx or 304 fails and the headers
  are never compared.
\<close>

lemma fresh_never_compares: "get_fresh d c = Inr False"
  by (simp add: get_fresh_def res_status_def Let_def)

section \<open>The claims\<close>

text \<open>
  C1, as the code has it. While the headers are not sent, setting the status to a registered
  empty-body code \<open>n\<close> sets a truthy body to null; and after \<open>status = n; body = 'x'\<close> the body
  is \<open>'x'\<close> under the status \<open>n\<close>, and \<open>status = n\<close> once more leaves the body null.
\<close>

theorem empty_status_clears_body:
  "\<not> get_headersSent c \<Longrightarrow> status_empty d n \<Longrightarrow> present (status_message d n) \<Longrightarrow>
     (truthy (get_body c) \<longrightarrow>
        fst (set_status d (JNum n) c) = Normal \<and>
        get_body (snd (set_status d (JNum n) c)) = JNull) \<and>
     (let c1 = snd (set_status d (JNum n) c);
          c2 = snd (set_body d (JStr ''x'') c1);
          r = set_status d (JNum n) c2
      in get_body c2 = JStr ''x'' \<and> get_status c2 = n \<and> fst r = Normal \<and>
         get_body (snd r) = JNull)"
proof -
  assume "\<not> get_headersSent c" and e: "status_empty d n" and reg: "present (status_message d n)"
  then have o: "\<not> headersSent (res c)" by (simp add: get_headersSent_def)
  note s1 = set_status_open [OF o reg]
  define c1 where "c1 = snd (set_status d (JNum n) c)"
  have c1: "\<not> headersSent (res c1)" "explicitStatus c1" "statusCode (res c1) = n"
    using s1 by (simp_all add: c1_def)
  have nn: "\<not> nullish (JStr ''x'')" by simp
  from c1(2) have ex: "explicitStatus c1 \<or> (present (status_message d 200) \<and> \<not> status_empty d 200)"
    by simp
  note b = set_body_value_state [OF c1(1) nn ex]
  define c2 where "c2 = snd (set_body d (JStr ''x'') c1)"
  have c2: "\<not> headersSent (res c2)" "body c2 = JStr ''x''" "statusCode (res c2) = n"
    using b c1 by (simp_all add: c2_def)
  note s2 = set_status_open [OF c2(1) reg]
  have first: "truthy (get_body c) \<longrightarrow>
        fst (set_status d (JNum n) c) = Normal \<and> get_body (snd (set_status d (JNum n) c)) = JNull"
    using s1(1) s1(5) e by (simp add: get_body_def)
  have trip: "get_body c2 = JStr ''x'' \<and> get_status c2 = n \<and>
      fst (set_status d (JNum n) c2) = Normal \<and>
      get_body (snd (set_status d (JNum n) c2)) = JNull"
    using s2(1) s2(5) c2 e by (simp add: get_body_def get_status_def)
  from first trip show ?thesis
    unfolding Let_def c1_def c2_def by simp
qed

theorem empty_status_clears_body_witness:
  "\<not> get_headersSent text_ctx \<and> status_empty packages 204 \<and>
   present (status_message packages 204) \<and>
   get_body text_ctx = JStr ''hello'' \<and> truthy (get_body text_ctx) \<and>
   get_body (snd (set_status packages (JNum 204) text_ctx)) = JNull \<and>
   \<not> get_headersSent new_ctx \<and>
   get_body (snd (set_body packages (JStr ''x'') (snd (set_status packages (JNum 204) new_ctx))))
     = JStr ''x'' \<and>
   get_body (snd (set_status packages (JNum 204)
     (snd (set_body packages (JStr ''x'') (snd (set_status packages (JNum 204) new_ctx))))))
     = JNull"
proof -
  have o: "\<not> get_headersSent text_ctx" by code_simp
  have b: "get_body text_ctx = JStr ''hello''" by code_simp
  then have t: "truthy (get_body text_ctx)" by simp
  from empty_status_clears_body [OF o packages_registry(9) packages_registry(3)] t
  have 1: "get_body (snd (set_status packages (JNum 204) text_ctx)) = JNull"
    by simp
  from empty_status_clears_body [OF new_ctx_open packages_registry(9) packages_registry(3)]
  have 2: "get_body (snd (set_body packages (JStr ''x'')
        (snd (set_status packages (JNum 204) new_ctx)))) = JStr ''x''"
    "get_body (snd (set_status packages (JNum 204)
       (snd (set_body packages (JStr ''x'') (snd (set_status packages (JNum 204) new_ctx))))))
     = JNull"
    by (simp_all add: Let_def)
  from o b t 1 2 new_ctx_open packages_registry show ?thesis by simp
qed

text \<open>
  C1 as it is stated fails in two states. Once the headers are sent, \<open>status = 204\<close> leaves
  the body \<open>'hello'\<close>. And the empty string is a body that is not null, but not truthy:
  after \<open>body = ''\<close> on a new context, \<open>status = 204\<close> is stored and the body stays \<open>''\<close>.
\<close>

theorem empty_status_keeps_body_counterexample:
  "get_headersSent sent_ctx \<and> get_body sent_ctx = JStr ''hello'' \<and>
   status_empty packages 204 \<and>
   get_body (snd (set_status packages (JNum 204) sent_ctx)) = JStr ''hello'' \<and>
   \<not> get_headersSent (snd (set_body packages (JStr []) new_ctx)) \<and>
   get_body (snd (set_body packages (JStr []) new_ctx)) = JStr [] \<and>
   get_status (snd (set_status packages (JNum 204) (snd (set_body packages (JStr []) new_ctx))))
     = 204 \<and>
   get_body (snd (set_status packages (JNum 204) (snd (set_body packages (JStr []) new_ctx))))
     = JStr []"
  by code_simp

text \<open>
  C2, as the code has it. While the headers are not sent: setting the status to a value
  that is not a number throws a type error, setting it to a number that the registry does
  not hold throws a range error, and in both cases the context is the one before the call;
  setting it to a registered code \<open>n\<close> returns, and the status read afterwards is \<open>n\<close>.
\<close>

theorem status_setter_checks_first:
  "\<not> get_headersSent c \<Longrightarrow>
     (typeof v \<noteq> ''number'' \<longrightarrow> set_status d v c = (Throw TypeError, c)) \<and>
     (typeof v = ''number'' \<and> \<not> present (statuses d v) \<longrightarrow>
        set_status d v c = (Throw RangeError, c)) \<and>
     (present (status_message d n) \<longrightarrow>
        fst (set_status d (JNum n) c) = Normal \<and> get_status (snd (set_status d (JNum n) c)) = n)"
proof (intro conjI impI)
  assume o: "\<not> get_headersSent c"
  show "set_status d v c = (Throw TypeError, c)" if "typeof v \<noteq> ''number''"
    using o that by (simp add: set_status.simps [of d v c])
  show "set_status d v c = (Throw RangeError, c)"
    if "typeof v = ''number'' \<and> \<not> present (statuses d v)"
    using o that by (simp add: set_status.simps [of d v c])
  assume reg: "present (status_message d n)"
  from o have o': "\<not> headersSent (res c)" by (simp add: get_headersSent_def)
  show "fst (set_status d (JNum n) c) = Normal"
    using set_status_open(1) [OF o' reg] .
  show "get_status (snd (set_status d (JNum n) c)) = n"
    using set_status_open(2) [OF o' reg] by (simp add: get_status_def)
qed

theorem status_setter_checks_first_witness:
  "\<not> get_headersSent new_ctx \<and>
   typeof (JStr ''200'') \<noteq> ''number'' \<and>
   set_status packages (JStr ''200'') new_ctx = (Throw TypeError, new_ctx) \<and>
   typeof (JNum 999) = ''number'' \<and> \<not> present (statuses packages (JNum 999)) \<and>
   set_status packages (JNum 999) new_ctx = (Throw RangeError, new_ctx) \<and>
   present (status_message packages 201) \<and>
   fst (set_status packages (JNum 201) new_ctx) = Normal \<and>
   get_status new_ctx = 404 \<and>
   get_status (snd (set_status packages (JNum 201) new_ctx)) = 201"
proof -
  have t: "typeof (JStr ''200'') \<noteq> ''number''" by simp
  have n: "typeof (JNum 999) = ''number'' \<and> \<not> present (statuses packages (JNum 999))"
    using packages_registry by simp
  have s: "get_status new_ctx = 404"
    by (simp add: get_status_def new_ctx_def createContext_def)
  from status_setter_checks_first [OF new_ctx_open, of "JStr ''200''" packages 201] t
    packages_registry(2)
  have 1: "set_status packages (JStr ''200'') new_ctx = (Throw TypeError, new_ctx)"
    and 3: "fst (set_status packages (JNum 201) new_ctx) = Normal"
      "get_status (snd (set_status packages (JNum 201) new_ctx)) = 201"
    by simp_all
  from status_setter_checks_first [OF new_ctx_open, of "JNum 999" packages 201] n
  have 2: "set_status packages (JNum 999) new_ctx = (Throw RangeError, new_ctx)"
    by simp
  from new_ctx_open t n packages_registry(2) s 1 2 3 show ?thesis by simp
qed

text \<open>
  C2 as it is stated fails once the headers are sent: a string and an unregistered number
  are then accepted in silence, and after setting the registered code 404 the status read
  is still 200.
\<close>

theorem status_setter_silent_counterexample:
  "set_status packages (JStr ''200'') sent_ctx = (Normal, sent_ctx) \<and>
   set_status packages (JNum 999) sent_ctx = (Normal, sent_ctx) \<and>
   present (status_message packages 404) \<and>
   get_status sent_ctx = 200 \<and>
   get_status (snd (set_status packages (JNum 404) sent_ctx)) = 200"
proof -
  have "set_status packages (JStr ''200'') sent_ctx = (Normal, sent_ctx)"
    using sent_ctx_sent by (simp add: set_status.simps [of packages "JStr ''200''" sent_ctx])
  moreover have "set_status packages (JNum 999) sent_ctx = (Normal, sent_ctx)"
    using sent_ctx_sent by (simp add: set_status.simps [of packages "JNum 999" sent_ctx])
  moreover have "get_status sent_ctx = 200"
    by code_simp
  moreover have "get_status (snd (set_status packages (JNum 404) sent_ctx)) = 200"
    by code_simp
  ultimately show ?thesis
    using packages_registry by simp
qed

text \<open>
  C3, as the code has it. While the headers are not sent and the status is not an
  empty-body status, setting the body to null or to undefined returns with the status 204
  and without the headers \<open>Content-Type\<close>, \<open>Content-Length\<close> and \<open>Transfer-Encoding\<close>.
\<close>

theorem null_body_forces_204:
  "\<not> get_headersSent c \<Longrightarrow> \<not> status_empty d (get_status c) \<Longrightarrow>
   present (status_message d 204) \<Longrightarrow> nullish v \<Longrightarrow>
     (let r = set_body d v c
      in fst r = Normal \<and> get_status (snd r) = 204 \<and> get_body (snd r) = v \<and>
         get_headers (snd r) ''content-type'' = None \<and>
         get_headers (snd r) ''content-length'' = None \<and>
         get_headers (snd r) ''transfer-encoding'' = None)"
proof -
  assume "\<not> get_headersSent c" and ne: "\<not> status_empty d (get_status c)"
    and reg: "present (status_message d 204)" and v: "nullish v"
  then have o: "\<not> headersSent (res c)" by (simp add: get_headersSent_def)
  from reg have "status_empty d (statusCode (res c)) \<or> present (status_message d 204)" by simp
  note b = set_body_null_open [OF o v this]
  from b ne show ?thesis
    by (simp add: Let_def get_status_def get_body_def get_headers_def)
qed

theorem null_body_forces_204_witness:
  "\<not> get_headersSent text_ctx \<and> \<not> status_empty packages (get_status text_ctx) \<and>
   present (status_message packages 204) \<and> nullish JUndefined \<and>
   get_status text_ctx = 200 \<and>
   get_headers text_ctx ''content-type'' = Some (HStr ''text/plain; charset=utf-8'') \<and>
   get_headers text_ctx ''content-length'' = Some (HStr ''5'') \<and>
   fst (set_body packages JUndefined text_ctx) = Normal \<and>
   get_status (snd (set_body packages JUndefined text_ctx)) = 204 \<and>
   get_body (snd (set_body packages JUndefined text_ctx)) = JUndefined \<and>
   get_headers (snd (set_body packages JUndefined text_ctx)) ''content-type'' = None \<and>
   get_headers (snd (set_body packages JUndefined text_ctx)) ''content-length'' = None"
proof -
  have o: "\<not> get_headersSent text_ctx" by code_simp
  have s: "get_status text_ctx = 200" by code_simp
  have e: "\<not> status_empty packages (get_status text_ctx)"
    using s packages_registry by simp
  have h: "get_headers text_ctx ''content-type'' = Some (HStr ''text/plain; charset=utf-8'')"
    "get_headers text_ctx ''content-length'' = Some (HStr ''5'')"
    by code_simp+
  have n: "nullish JUndefined" by simp
  from null_body_forces_204 [OF o e packages_registry(3) n]
  have "fst (set_body packages JUndefined text_ctx) = Normal \<and>
   get_status (snd (set_body packages JUndefined text_ctx)) = 204 \<and>
   get_body (snd (set_body packages JUndefined text_ctx)) = JUndefined \<and>
   get_headers (snd (set_body packages JUndefined text_ctx)) ''content-type'' = None \<and>
   get_headers (snd (set_body packages JUndefined text_ctx)) ''content-length'' = None"
    by (simp add: Let_def)
  with o e s h n packages_registry(3) show ?thesis by simp
qed

text \<open>
  C3 as it is stated fails once the headers are sent: the status 200 is not an empty-body
  status, and after \<open>body = null\<close> the status is still 200 and the headers are still there.
\<close>

theorem null_body_once_sent_counterexample:
  "get_headersSent sent_ctx \<and> get_status sent_ctx = 200 \<and>
   \<not> status_empty packages (get_status sent_ctx) \<and>
   get_body (snd (set_body packages JNull sent_ctx)) = JNull \<and>
   get_status (snd (set_body packages JNull sent_ctx)) = 200 \<and>
   get_headers (snd (set_body packages JNull sent_ctx)) ''content-type'' =
     Some (HStr ''text/plain; charset=utf-8'') \<and>
   get_headers (snd (set_body packages JNull sent_ctx)) ''content-length'' = Some (HStr ''5'')"
  by code_simp

text \<open>
  C4, as the code has it. While the headers are not sent, setting the body to a value
  \<open>val\<close> that is neither null nor undefined returns with that body, and with the status 200
  if no status was set explicitly. For a string, a buffer and a stream the \<open>Content-Type\<close>
  is kept when one is present (and not empty) and is otherwise the type of \<open>html\<close> or \<open>text\<close>
  for a string (as it looks like markup or not) and of \<open>bin\<close> for a buffer and a stream; for
  any other value it is the type of \<open>json\<close>, whether one was present or not. The
  \<open>Content-Length\<close> is the byte length for a string and a buffer, is removed for any other
  value, and for a stream is removed when the stream replaces another body that is not null
  and is kept otherwise. (The four types are entries of the table of \<open>mime-types\<close>, and
  header values that the transport accepts.)
\<close>

theorem body_infers_type_and_length:
  "\<not> get_headersSent c \<Longrightarrow> \<not> nullish val \<Longrightarrow>
   present (status_message d 200) \<Longrightarrow> \<not> status_empty d 200 \<Longrightarrow>
   contentType d ''html'' = Some html \<Longrightarrow> html \<noteq> [] \<Longrightarrow>
   contentType d ''text'' = Some plain \<Longrightarrow> plain \<noteq> [] \<Longrightarrow>
   contentType d ''bin'' = Some octet \<Longrightarrow> octet \<noteq> [] \<Longrightarrow>
   contentType d ''json'' = Some json \<Longrightarrow> json \<noteq> [] \<Longrightarrow>
   valid_header_value (HStr html) \<Longrightarrow> valid_header_value (HStr plain) \<Longrightarrow>
   valid_header_value (HStr octet) \<Longrightarrow> valid_header_value (HStr json) \<Longrightarrow>
     (let r = set_body d val c;
          old = get_headers c ''content-type'';
          ct = get_headers (snd r) ''content-type'';
          cl = get_headers (snd r) ''content-length''
      in fst r = Normal \<and> get_body (snd r) = val \<and>
         get_status (snd r) = (if explicitStatus c then get_status c else 200) \<and>
         (typeof val = ''string'' \<longrightarrow>
            ct = (if truthy_header old then old
                  else Some (HStr (if looks_like_markup (text_of val) then html else plain))) \<and>
            cl = Some (HStr (decimal (byteLength val)))) \<and>
         (isBuffer val \<longrightarrow>
            ct = (if truthy_header old then old else Some (HStr octet)) \<and>
            cl = Some (HStr (decimal (byteLength val)))) \<and>
         (isStream val \<longrightarrow>
            ct = (if truthy_header old then old else Some (HStr octet)) \<and>
            cl = (if \<not> nullish (get_body c) \<and> get_body c \<noteq> val then None
                  else get_headers c ''content-length'')) \<and>
         (typeof val \<noteq> ''string'' \<and> \<not> isBuffer val \<and> \<not> isStream val \<longrightarrow>
            ct = Some (HStr json) \<and> cl = None))"
proof -
  assume "\<not> get_headersSent c" and nn: "\<not> nullish val"
    and reg: "present (status_message d 200)" "\<not> status_empty d 200"
    and mime: "contentType d ''html'' = Some html" "html \<noteq> []"
      "contentType d ''text'' = Some plain" "plain \<noteq> []"
      "contentType d ''bin'' = Some octet" "octet \<noteq> []"
      "contentType d ''json'' = Some json" "json \<noteq> []"
    and valid: "valid_header_value (HStr html)" "valid_header_value (HStr plain)"
      "valid_header_value (HStr octet)" "valid_header_value (HStr json)"
  then have o: "\<not> headersSent (res c)" by (simp add: get_headersSent_def)
  from reg have ex: "explicitStatus c \<or> (present (status_message d 200) \<and> \<not> status_empty d 200)"
    by simp
  have accepted: "valid_header_value (HStr (the (contentType d
      (if typeof val = ''string''
       then (if looks_like_markup (text_of val) then ''html'' else ''text'')
       else if isBuffer val \<or> isStream val then ''bin'' else ''json''))))"
    using mime valid by simp
  note b = set_body_value_open [OF o nn ex accepted]
  define r where "r = set_body d val c"
  have basic: "fst r = Normal \<and> get_body (snd r) = val \<and>
         get_status (snd r) = (if explicitStatus c then get_status c else 200)"
    using b by (simp add: r_def get_body_def get_status_def)
  have hs: "map_of (header_fields (res (snd r))) =
       (let old = map_of (header_fields (res c));
            typed = (\<lambda>t h. if present (contentType d t)
                        then h(''content-type'' \<mapsto> HStr (the (contentType d t)))
                        else h(''content-type'' := None));
            setType = \<not> truthy_header (old ''content-type'')
        in if typeof val = ''string'' then
             ((if setType then typed (if looks_like_markup (text_of val) then ''html'' else ''text'') old
               else old))
               (''content-length'' \<mapsto> HStr (decimal (byteLength val)))
           else if isBuffer val then
             ((if setType then typed ''bin'' old else old))
               (''content-length'' \<mapsto> HStr (decimal (byteLength val)))
           else if isStream val then
             (if \<not> nullish (body c) \<and> body c \<noteq> val
              then ((if setType then typed ''bin'' old else old))(''content-length'' := None)
              else (if setType then typed ''bin'' old else old))
           else (typed ''json'' old)(''content-length'' := None))"
    using b by (simp add: r_def Let_def)
  have str: "typeof val = ''string'' \<longrightarrow>
      get_headers (snd r) ''content-type'' =
        (if truthy_header (get_headers c ''content-type'') then get_headers c ''content-type''
         else Some (HStr (if looks_like_markup (text_of val) then html else plain))) \<and>
      get_headers (snd r) ''content-length'' = Some (HStr (decimal (byteLength val)))"
    using mime by (simp add: hs get_headers_def Let_def)
  have buf: "isBuffer val \<longrightarrow>
      get_headers (snd r) ''content-type'' =
        (if truthy_header (get_headers c ''content-type'') then get_headers c ''content-type''
         else Some (HStr octet)) \<and>
      get_headers (snd r) ''content-length'' = Some (HStr (decimal (byteLength val)))"
    using mime by (cases val) (simp_all add: hs get_headers_def Let_def)
  have stream: "isStream val \<longrightarrow>
      get_headers (snd r) ''content-type'' =
        (if truthy_header (get_headers c ''content-type'') then get_headers c ''content-type''
         else Some (HStr octet)) \<and>
      get_headers (snd r) ''content-length'' =
        (if \<not> nullish (get_body c) \<and> get_body c \<noteq> val then None
         else get_headers c ''content-length'')"
    using mime by (cases val) (simp_all add: hs get_headers_def get_body_def Let_def)
  have other: "typeof val \<noteq> ''string'' \<and> \<not> isBuffer val \<and> \<not> isStream val \<longrightarrow>
      get_headers (snd r) ''content-type'' = Some (HStr json) \<and>
      get_headers (snd r) ''content-length'' = None"
    using mime by (simp add: hs get_headers_def Let_def)
  from basic str buf stream other show ?thesis
    unfolding Let_def r_def by simp
qed

theorem body_infers_type_and_length_witness:
  "\<not> get_headersSent new_ctx \<and> \<not> nullish (JStr '' <p>hi</p>'') \<and> \<not> nullish JObject \<and>
   present (status_message packages 200) \<and> \<not> status_empty packages 200 \<and>
   contentType packages ''html'' = Some ''text/html; charset=utf-8'' \<and>
   contentType packages ''text'' = Some ''text/plain; charset=utf-8'' \<and>
   contentType packages ''bin'' = Some ''application/octet-stream'' \<and>
   contentType packages ''json'' = Some ''application/json; charset=utf-8'' \<and>
   valid_header_value (HStr ''text/html; charset=utf-8'') \<and>
   valid_header_value (HStr ''text/plain; charset=utf-8'') \<and>
   valid_header_value (HStr ''application/octet-stream'') \<and>
   valid_header_value (HStr ''application/json; charset=utf-8'') \<and>
   get_status new_ctx = 404 \<and> \<not> explicitStatus new_ctx \<and>
   get_headers new_ctx ''content-type'' = None \<and>
   typeof (JStr '' <p>hi</p>'') = ''string'' \<and>
   get_status (snd (set_body packages (JStr '' <p>hi</p>'') new_ctx)) = 200 \<and>
   get_headers (snd (set_body packages (JStr '' <p>hi</p>'') new_ctx)) ''content-type'' =
     Some (HStr ''text/html; charset=utf-8'') \<and>
   get_headers (snd (set_body packages (JStr '' <p>hi</p>'') new_ctx)) ''content-length'' =
     Some (HStr ''10'') \<and>
   typeof JObject \<noteq> ''string'' \<and> \<not> isBuffer JObject \<and> \<not> isStream JObject \<and>
   get_headers (snd (set_body packages JObject new_ctx)) ''content-type'' =
     Some (HStr ''application/json; charset=utf-8'') \<and>
   get_headers (snd (set_body packages JObject new_ctx)) ''content-length'' = None \<and>
   \<not> get_headersSent text_ctx \<and> \<not> nullish (JBuffer ''abc'') \<and> \<not> nullish (JStream 1) \<and>
   get_headers text_ctx ''content-type'' = Some (HStr ''text/plain; charset=utf-8'') \<and>
   isBuffer (JBuffer ''abc'') \<and>
   get_headers (snd (set_body packages (JBuffer ''abc'') text_ctx)) ''content-type'' =
     Some (HStr ''text/plain; charset=utf-8'') \<and>
   get_headers (snd (set_body packages (JBuffer ''abc'') text_ctx)) ''content-length'' =
     Some (HStr ''3'') \<and>
   isStream (JStream 1) \<and>
   get_headers (snd (set_body packages (JStream 1) text_ctx)) ''content-type'' =
     Some (HStr ''text/plain; charset=utf-8'') \<and>
   get_headers (snd (set_body packages (JStream 1) text_ctx)) ''content-length'' = None"
proof -
  note reg = packages_registry(1) packages_registry(10)
  note inst = body_infers_type_and_length [where d = packages, OF _ _ reg
      packages_mime(1) _ packages_mime(2) _ packages_mime(3) _ packages_mime(4) _
      packages_mime_accepted]
  have new: "get_status new_ctx = 404" "\<not> explicitStatus new_ctx"
    "get_headers new_ctx ''content-type'' = None"
    by (simp_all add: new_ctx_def createContext_def get_status_def get_headers_def a_response_def)
  have old: "\<not> get_headersSent text_ctx"
    "get_headers text_ctx ''content-type'' = Some (HStr ''text/plain; charset=utf-8'')"
    "get_headers text_ctx ''content-length'' = Some (HStr ''5'')"
    "get_body text_ctx = JStr ''hello''"
    by code_simp+
  have markup: "looks_like_markup '' <p>hi</p>''" by code_simp
  have digits: "decimal (byteLength (JStr '' <p>hi</p>'')) = ''10''"
    "decimal (byteLength (JBuffer ''abc'')) = ''3''"
    by code_simp+
  from inst [of new_ctx "JStr '' <p>hi</p>''"] new_ctx_open new markup digits
  have 1: "get_status (snd (set_body packages (JStr '' <p>hi</p>'') new_ctx)) = 200 \<and>
     get_headers (snd (set_body packages (JStr '' <p>hi</p>'') new_ctx)) ''content-type'' =
       Some (HStr ''text/html; charset=utf-8'') \<and>
     get_headers (snd (set_body packages (JStr '' <p>hi</p>'') new_ctx)) ''content-length'' =
       Some (HStr ''10'')"
    by (simp add: Let_def)
  from inst [of new_ctx JObject] new_ctx_open new
  have 2: "get_headers (snd (set_body packages JObject new_ctx)) ''content-type'' =
       Some (HStr ''application/json; charset=utf-8'') \<and>
     get_headers (snd (set_body packages JObject new_ctx)) ''content-length'' = None"
    by (simp add: Let_def)
  from inst [of text_ctx "JBuffer ''abc''"] old digits
  have 3: "get_headers (snd (set_body packages (JBuffer ''abc'') text_ctx)) ''content-type'' =
       Some (HStr ''text/plain; charset=utf-8'') \<and>
     get_headers (snd (set_body packages (JBuffer ''abc'') text_ctx)) ''content-length'' =
       Some (HStr ''3'')"
    by (simp add: Let_def)
  from inst [of text_ctx "JStream 1"] old
  have 4: "get_headers (snd (set_body packages (JStream 1) text_ctx)) ''content-type'' =
       Some (HStr ''text/plain; charset=utf-8'') \<and>
     get_headers (snd (set_body packages (JStream 1) text_ctx)) ''content-length'' = None"
    by (simp add: Let_def)
  from new_ctx_open new old reg packages_mime packages_mime_accepted 1 2 3 4 show ?thesis by simp
qed

text \<open>
  C4 as it is stated fails in two ways. A \<open>Content-Type\<close> that a middleware has set is
  replaced by the type of \<open>json\<close> when the body is a structured value. And once the headers
  are sent the body is stored with no header written: the \<open>Content-Length\<close> of the old
  body stays.
\<close>

theorem body_overrides_type_counterexample:
  "get_headers (snd (response_set ''Content-Type'' (HStr ''application/vnd.api+json'') new_ctx))
     ''content-type'' = Some (HStr ''application/vnd.api+json'') \<and>
   get_headers (snd (set_body packages JObject
       (snd (response_set ''Content-Type'' (HStr ''application/vnd.api+json'') new_ctx))))
     ''content-type'' = Some (HStr ''application/json; charset=utf-8'') \<and>
   get_headersSent sent_ctx \<and>
   get_body (snd (set_body packages (JBuffer ''abc'') sent_ctx)) = JBuffer ''abc'' \<and>
   get_headers (snd (set_body packages (JBuffer ''abc'') sent_ctx)) ''content-length'' =
     Some (HStr ''5'')"
  by code_simp





text \<open>
  C6. Once the headers are sent, \<open>set\<close> (with a field and a value, or with an object),
  \<open>append\<close>, \<open>remove\<close> and \<open>vary\<close> return without raising and leave the context, and so
  the response headers, as they are. (The transport's own \<open>setHeader\<close> and \<open>removeHeader\<close>
  throw in that state; the guard of each operation keeps them from being called.)
\<close>

theorem header_mutation_ignored_once_sent:
  "get_headersSent c \<Longrightarrow>
     response_set field val c = (Normal, c) \<and>
     response_set_object obj c = (Normal, c) \<and>
     response_append field val c = (Normal, c) \<and>
     response_remove field c = (Normal, c) \<and>
     response_vary d field c = (Normal, c)"
  by (simp add: response_set_def response_set_object_def response_append_def
      response_remove_def response_vary_def)

theorem header_mutation_ignored_once_sent_witness:
  "get_headersSent sent_ctx \<and>
   response_set ''Content-Type'' (HStr ''text/html'') sent_ctx = (Normal, sent_ctx) \<and>
   response_set_object [(''X-Id'', HStr ''7'')] sent_ctx = (Normal, sent_ctx) \<and>
   response_append ''Content-Type'' (HStr ''text/html'') sent_ctx = (Normal, sent_ctx) \<and>
   response_remove ''Content-Type'' sent_ctx = (Normal, sent_ctx) \<and>
   response_vary packages ''Content-Type'' sent_ctx = (Normal, sent_ctx) \<and>
   res_setHeader ''Content-Type'' (HStr ''text/html'') sent_ctx = (Throw HeadersSentError, sent_ctx) \<and>
   res_removeHeader ''Content-Type'' sent_ctx = (Throw HeadersSentError, sent_ctx)"
  using sent_ctx_sent
    header_mutation_ignored_once_sent [OF sent_ctx_sent,
      of "''Content-Type''" "HStr ''text/html''" "[(''X-Id'', HStr ''7'')]" packages]
  by (simp add: res_setHeader_def res_removeHeader_def get_headersSent_def)

text \<open>
  C7, as the code has it. While the headers are not sent, the target of \<open>redirect(url, alt)\<close>
  is \<open>url\<close> itself, unless \<open>url\<close> is \<open>'back'\<close>, when it is the request's \<open>Referrer\<close> (or
  \<open>Referer\<close>) header if that is not empty, else \<open>alt\<close> if that is given and not empty, else
  \<open>'/'\<close>. When the target is a header value that the transport accepts, \<open>redirect\<close> returns
  with the \<open>Location\<close> header set to the target; the status is 302 unless the status was a
  redirect code already, and a redirect code that was set through the setter is kept; the
  body is the anchor with the escaped target when the request accepts \<open>html\<close>, and the plain
  sentence naming the target otherwise. When the transport refuses the target (a line feed
  in it, for one), \<open>redirect\<close> throws a type error and nothing is written. (The types of
  \<open>html\<close> and \<open>text\<close> are entries of the table of \<open>mime-types\<close>, and header values that the
  transport accepts.)
\<close>

theorem redirect_location_status_body:
  "\<not> get_headersSent c \<Longrightarrow> present (status_message d 302) \<Longrightarrow>
   present (status_message d 200) \<Longrightarrow> \<not> status_empty d 200 \<Longrightarrow>
   contentType d ''html'' = Some html \<Longrightarrow> valid_header_value (HStr html) \<Longrightarrow>
   contentType d ''text'' = Some plain \<Longrightarrow> valid_header_value (HStr plain) \<Longrightarrow>
     (let target =
            (if url = ''back''
             then (if request_get ''Referrer'' c \<noteq> [] then request_get ''Referrer'' c
                   else (case alt of None \<Rightarrow> ''/'' | Some a \<Rightarrow> if a \<noteq> [] then a else ''/''))
             else url);
          r = redirect d url alt c
      in (valid_header_value (HStr target) \<longrightarrow>
            fst r = Normal \<and>
            get_headers (snd r) ''location'' = Some (HStr target) \<and>
            (\<not> status_redirect d (get_status c) \<longrightarrow> get_status (snd r) = 302) \<and>
            (status_redirect d (get_status c) \<and> explicitStatus c \<longrightarrow>
               get_status (snd r) = get_status c) \<and>
            get_body (snd r) =
              JStr (if request_accepts d ''html'' c
                    then ''Redirecting to <a href='' @ [CHR 0x22] @ escape d target @ [CHR 0x22]
                         @ ''>'' @ escape d target @ ''</a>.''
                    else ''Redirecting to '' @ target @ ''.'')) \<and>
         (\<not> valid_header_value (HStr target) \<longrightarrow> r = (Throw TypeError, c)))"
proof -
  assume "\<not> get_headersSent c" and reg: "present (status_message d 302)"
    and reg200: "present (status_message d 200)" "\<not> status_empty d 200"
    and mime: "contentType d ''html'' = Some html" "valid_header_value (HStr html)"
      "contentType d ''text'' = Some plain" "valid_header_value (HStr plain)"
  then have o: "\<not> headersSent (res c)" by (simp add: get_headersSent_def)
  define target where "target =
            (if url = ''back''
             then (if request_get ''Referrer'' c \<noteq> [] then request_get ''Referrer'' c
                   else (case alt of None \<Rightarrow> ''/'' | Some a \<Rightarrow> if a \<noteq> [] then a else ''/''))
             else url)"
  have url1: "(if url = ''back'' then or_else (Some (request_get ''Referrer'' c)) (or_else alt ''/'')
                  else url) = target"
    by (cases alt) (simp_all add: target_def)
  define val where "val = JStr (if request_accepts d ''html'' c
                 then ''Redirecting to <a href='' @ [CHR 0x22] @ escape d target @ [CHR 0x22]
                      @ ''>'' @ escape d target @ ''</a>.''
                 else ''Redirecting to '' @ target @ ''.'')"
  have refused: "redirect d url alt c = (Throw TypeError, c)"
    if "\<not> valid_header_value (HStr target)"
  proof -
    from that have "response_set ''Location'' (HStr target) c = (Throw TypeError, c)"
      using o by (intro response_set_refused) simp_all
    then show ?thesis
      unfolding redirect_def url1 Let_def by simp
  qed
  have accepted: "fst (redirect d url alt c) = Normal \<and>
      get_headers (snd (redirect d url alt c)) ''location'' = Some (HStr target) \<and>
      (\<not> status_redirect d (get_status c) \<longrightarrow> get_status (snd (redirect d url alt c)) = 302) \<and>
      (status_redirect d (get_status c) \<and> explicitStatus c \<longrightarrow>
         get_status (snd (redirect d url alt c)) = get_status c) \<and>
      get_body (snd (redirect d url alt c)) = val"
    if ok: "valid_header_value (HStr target)"
  proof -
    define c1 where "c1 = c\<lparr>res := (res c)\<lparr>header_fields :=
          AList.update ''location'' (HStr target) (header_fields (res c))\<rparr>\<rparr>"
    have loc: "response_set ''Location'' (HStr target) c = (Normal, c1)"
      using o ok by (simp add: response_set_open c1_def)
    have c1: "\<not> headersSent (res c1)" "statusCode (res c1) = statusCode (res c)"
      "explicitStatus c1 = explicitStatus c" "req c1 = req c"
      "map_of (header_fields (res c1)) ''location'' = Some (HStr target)"
      using o by (simp_all add: c1_def update_conv')
    define m where "m = (if \<not> status_redirect d (get_status c1) then set_status d (JNum 302) c1
                      else (Normal, c1))"
    define c2 where "c2 = snd m"
    have m: "fst m = Normal \<and> \<not> headersSent (res c2) \<and> req c2 = req c \<and>
        map_of (header_fields (res c2)) ''location'' = Some (HStr target) \<and>
        (\<not> status_redirect d (get_status c) \<longrightarrow> statusCode (res c2) = 302 \<and> explicitStatus c2) \<and>
        (status_redirect d (get_status c) \<longrightarrow>
           statusCode (res c2) = statusCode (res c) \<and> explicitStatus c2 = explicitStatus c)"
    proof (cases "status_redirect d (get_status c)")
      case True
      then show ?thesis using c1 by (simp add: m_def c2_def get_status_def)
    next
      case False
      note st = set_status_open [OF c1(1) reg]
      from False show ?thesis using c1 st by (simp add: m_def c2_def get_status_def)
    qed
    define kind where "kind = (if request_accepts d ''html'' c then ''html'' else ''text'')"
    have acc: "request_accepts d ''html'' c2 = request_accepts d ''html'' c"
      using m by (simp add: request_accepts_def)
    have r: "redirect d url alt c = and_then (set_type d kind c2) (set_body d val)"
      unfolding redirect_def url1 Let_def loc and_then_Normal m_def [symmetric]
        and_then_fst [OF conjunct1 [OF m]] c2_def [symmetric] acc
      by (simp add: kind_def val_def)
    define c3 where "c3 = c2\<lparr>res := (res c2)\<lparr>header_fields :=
          (if present (contentType d kind)
           then AList.update ''content-type'' (HStr (the (contentType d kind)))
           else AList.delete ''content-type'') (header_fields (res c2))\<rparr>\<rparr>"
    have kind: "valid_header_value (HStr (the (contentType d kind)))"
      using mime by (simp add: kind_def)
    have ty: "set_type d kind c2 = (Normal, c3)"
      using m kind by (simp add: set_type_open c3_def)
    have c3: "\<not> headersSent (res c3)" "statusCode (res c3) = statusCode (res c2)"
      "explicitStatus c3 = explicitStatus c2"
      "map_of (header_fields (res c3)) ''location'' = Some (HStr target)"
      using m by (simp_all add: c3_def update_conv' delete_conv')
    have nn: "\<not> nullish val" "typeof val = ''string''" by (simp_all add: val_def)
    from reg200
    have ex: "explicitStatus c3 \<or> (present (status_message d 200) \<and> \<not> status_empty d 200)"
      by simp
    have inferred: "valid_header_value (HStr (the (contentType d
        (if typeof val = ''string''
         then (if looks_like_markup (text_of val) then ''html'' else ''text'')
         else if isBuffer val \<or> isStream val then ''bin'' else ''json''))))"
      using mime nn(2) by simp
    note b = set_body_value_open [OF c3(1) nn(1) ex inferred]
    have r': "redirect d url alt c = set_body d val c3"
      by (simp add: r ty)
    have "fst (set_body d val c3) = Normal \<and>
        map_of (header_fields (res (snd (set_body d val c3)))) ''location'' = Some (HStr target) \<and>
        statusCode (res (snd (set_body d val c3))) =
          (if explicitStatus c3 then statusCode (res c3) else 200) \<and>
        body (snd (set_body d val c3)) = val"
      using b nn(2) c3(4) by (simp add: Let_def)
    then show ?thesis
      using m c3 by (simp add: r' get_headers_def get_status_def get_body_def)
  qed
  from accepted refused show ?thesis
    unfolding Let_def target_def [symmetric] val_def by simp
qed


theorem redirect_location_status_body_witness:
  "\<not> get_headersSent referred_ctx \<and> present (status_message packages 302) \<and>
   present (status_message packages 200) \<and> \<not> status_empty packages 200 \<and>
   contentType packages ''html'' = Some ''text/html; charset=utf-8'' \<and>
   valid_header_value (HStr ''text/html; charset=utf-8'') \<and>
   contentType packages ''text'' = Some ''text/plain; charset=utf-8'' \<and>
   valid_header_value (HStr ''text/plain; charset=utf-8'') \<and>
   request_get ''Referrer'' referred_ctx = ''/prev'' \<and> valid_header_value (HStr ''/prev'') \<and>
   get_status referred_ctx = 404 \<and> \<not> status_redirect packages (get_status referred_ctx) \<and>
   request_accepts packages ''html'' referred_ctx \<and>
   fst (redirect packages ''back'' None referred_ctx) = Normal \<and>
   get_headers (snd (redirect packages ''back'' None referred_ctx)) ''location''
     = Some (HStr ''/prev'') \<and>
   get_status (snd (redirect packages ''back'' None referred_ctx)) = 302 \<and>
   get_body (snd (redirect packages ''back'' None referred_ctx))
     = JStr (''Redirecting to <a href='' @ [CHR 0x22] @ ''/prev'' @ [CHR 0x22] @ ''>/prev</a>.'') \<and>
   \<not> get_headersSent api_ctx \<and> \<not> request_accepts packages ''html'' api_ctx \<and>
   request_get ''Referrer'' api_ctx = [] \<and> valid_header_value (HStr ''/home'') \<and>
   get_headers (snd (redirect packages ''back'' (Some ''/home'') api_ctx)) ''location''
     = Some (HStr ''/home'') \<and>
   get_body (snd (redirect packages ''back'' (Some ''/home'') api_ctx))
     = JStr ''Redirecting to /home.'' \<and>
   valid_header_value (HStr ''/'') \<and>
   get_headers (snd (redirect packages ''back'' None api_ctx)) ''location'' = Some (HStr ''/'') \<and>
   \<not> get_headersSent (snd (set_status packages (JNum 301) new_ctx)) \<and>
   get_status (snd (set_status packages (JNum 301) new_ctx)) = 301 \<and>
   status_redirect packages (get_status (snd (set_status packages (JNum 301) new_ctx))) \<and>
   explicitStatus (snd (set_status packages (JNum 301) new_ctx)) \<and>
   valid_header_value (HStr ''/a?b=1&c=2'') \<and>
   get_headers (snd (redirect packages ''/a?b=1&c=2'' None (snd (set_status packages (JNum 301) new_ctx))))
     ''location'' = Some (HStr ''/a?b=1&c=2'') \<and>
   get_status (snd (redirect packages ''/a?b=1&c=2'' None (snd (set_status packages (JNum 301) new_ctx))))
     = 301 \<and>
   get_body (snd (redirect packages ''/a?b=1&c=2'' None (snd (set_status packages (JNum 301) new_ctx))))
     = JStr (''Redirecting to <a href='' @ [CHR 0x22] @ ''/a?b=1&amp;c=2'' @ [CHR 0x22]
             @ ''>/a?b=1&amp;c=2</a>.'') \<and>
   \<not> get_headersSent new_ctx \<and> \<not> valid_header_value (HStr (''/a'' @ [CHR 0x0A] @ ''b'')) \<and>
   fst (redirect packages (''/a'' @ [CHR 0x0A] @ ''b'') None new_ctx) = Throw TypeError \<and>
   get_headers (snd (redirect packages (''/a'' @ [CHR 0x0A] @ ''b'') None new_ctx)) ''location''
     = get_headers new_ctx ''location''"
proof -
  note reg = packages_registry(4) packages_registry(1) packages_registry(10)
    packages_mime(1) packages_mime_accepted(1) packages_mime(2) packages_mime_accepted(2)
  have v: "valid_header_value (HStr ''/prev'')" "valid_header_value (HStr ''/home'')"
    "valid_header_value (HStr ''/'')" "valid_header_value (HStr ''/a?b=1&c=2'')"
    "\<not> valid_header_value (HStr (''/a'' @ [CHR 0x0A] @ ''b''))"
    "(''/a'' @ [CHR 0x0A] @ ''b'' = ''back'') = False"
    by code_simp+
  have a: "\<not> get_headersSent referred_ctx" "request_get ''Referrer'' referred_ctx = ''/prev''"
    "get_status referred_ctx = 404" "\<not> status_redirect packages (get_status referred_ctx)"
    "request_accepts packages ''html'' referred_ctx"
    "escape packages ''/prev'' = ''/prev''"
    by code_simp+
  have b: "\<not> get_headersSent api_ctx" "\<not> request_accepts packages ''html'' api_ctx"
    "request_get ''Referrer'' api_ctx = []"
    by code_simp+
  have c: "\<not> get_headersSent (snd (set_status packages (JNum 301) new_ctx))"
    "get_status (snd (set_status packages (JNum 301) new_ctx)) = 301"
    "status_redirect packages (get_status (snd (set_status packages (JNum 301) new_ctx)))"
    "explicitStatus (snd (set_status packages (JNum 301) new_ctx))"
    "request_accepts packages ''html'' (snd (set_status packages (JNum 301) new_ctx))"
    "escape packages ''/a?b=1&c=2'' = ''/a?b=1&amp;c=2''"
    by code_simp+
  have e: "\<not> get_headersSent new_ctx" by code_simp
  from redirect_location_status_body [OF a(1) reg, where url = "''back''" and alt = None] a v(1)
  have 1: "fst (redirect packages ''back'' None referred_ctx) = Normal \<and>
     get_headers (snd (redirect packages ''back'' None referred_ctx)) ''location''
       = Some (HStr ''/prev'') \<and>
     get_status (snd (redirect packages ''back'' None referred_ctx)) = 302 \<and>
     get_body (snd (redirect packages ''back'' None referred_ctx))
       = JStr (''Redirecting to <a href='' @ [CHR 0x22] @ ''/prev'' @ [CHR 0x22] @ ''>/prev</a>.'')"
    by (simp add: Let_def del: valid_header_value.simps valid_chars.simps)
  from redirect_location_status_body [OF b(1) reg, where url = "''back''" and alt = "Some ''/home''"]
    b v(2)
  have 2: "get_headers (snd (redirect packages ''back'' (Some ''/home'') api_ctx)) ''location''
       = Some (HStr ''/home'') \<and>
     get_body (snd (redirect packages ''back'' (Some ''/home'') api_ctx))
       = JStr ''Redirecting to /home.''"
    by (simp add: Let_def del: valid_header_value.simps valid_chars.simps)
  from redirect_location_status_body [OF b(1) reg, where url = "''back''" and alt = None] b v(3)
  have 3: "get_headers (snd (redirect packages ''back'' None api_ctx)) ''location'' = Some (HStr ''/'')"
    by (simp add: Let_def del: valid_header_value.simps valid_chars.simps)
  from redirect_location_status_body [OF c(1) reg, where url = "''/a?b=1&c=2''" and alt = None]
    c v(4)
  have 4: "get_headers (snd (redirect packages ''/a?b=1&c=2'' None
         (snd (set_status packages (JNum 301) new_ctx)))) ''location'' = Some (HStr ''/a?b=1&c=2'') \<and>
     get_status (snd (redirect packages ''/a?b=1&c=2'' None
         (snd (set_status packages (JNum 301) new_ctx)))) = 301 \<and>
     get_body (snd (redirect packages ''/a?b=1&c=2'' None
         (snd (set_status packages (JNum 301) new_ctx))))
       = JStr (''Redirecting to <a href='' @ [CHR 0x22] @ ''/a?b=1&amp;c=2'' @ [CHR 0x22]
             @ ''>/a?b=1&amp;c=2</a>.'')"
    by (simp add: Let_def del: valid_header_value.simps valid_chars.simps)
  from redirect_location_status_body [OF e reg,
      where url = "''/a'' @ [CHR 0x0A] @ ''b''" and alt = None] v(5,6)
  have "redirect packages (''/a'' @ [CHR 0x0A] @ ''b'') None new_ctx = (Throw TypeError, new_ctx)"
    by (simp only: Let_def if_False simp_thms)
  then have 5: "fst (redirect packages (''/a'' @ [CHR 0x0A] @ ''b'') None new_ctx) = Throw TypeError \<and>
     get_headers (snd (redirect packages (''/a'' @ [CHR 0x0A] @ ''b'') None new_ctx)) ''location''
       = get_headers new_ctx ''location''"
    by (simp only: fst_conv snd_conv simp_thms)
  from reg(1-3) packages_mime(1,2) packages_mime_accepted(1,2) a(1-5) b c(1-4) e v(1-5) 1 2 3 4 5
  show ?thesis by (simp only: simp_thms)
qed

text \<open>
  C7 as it is stated fails once the headers are sent: \<open>redirect('/login')\<close> stores the body,
  but no \<open>Location\<close> header is set and the status 200, which is no redirect code, stays.
  It fails as well, with no header sent, at a target that the transport refuses:
  \<open>redirect('/a\nb')\<close> throws a type error, and there is no \<open>Location\<close> header, the status is
  still 404 and the body still null.
\<close>

theorem redirect_once_sent_counterexample:
  "get_headersSent sent_ctx \<and> get_status sent_ctx = 200 \<and>
   \<not> status_redirect packages (get_status sent_ctx) \<and>
   fst (redirect packages ''/login'' None sent_ctx) = Normal \<and>
   get_headers (snd (redirect packages ''/login'' None sent_ctx)) ''location'' = None \<and>
   get_status (snd (redirect packages ''/login'' None sent_ctx)) = 200 \<and>
   get_body (snd (redirect packages ''/login'' None sent_ctx))
     = JStr (''Redirecting to <a href='' @ [CHR 0x22] @ ''/login'' @ [CHR 0x22] @ ''>/login</a>.'') \<and>
   \<not> get_headersSent new_ctx \<and>
   fst (redirect packages (''/a'' @ [CHR 0x0A] @ ''b'') None new_ctx) = Throw TypeError \<and>
   get_headers (snd (redirect packages (''/a'' @ [CHR 0x0A] @ ''b'') None new_ctx)) ''location'' = None \<and>
   get_status (snd (redirect packages (''/a'' @ [CHR 0x0A] @ ''b'') None new_ctx)) = 404 \<and>
   get_body (snd (redirect packages (''/a'' @ [CHR 0x0A] @ ''b'') None new_ctx)) = JNull"
  by code_simp

text \<open>
  C8. For a \<open>GET\<close> or \<open>HEAD\<close> request and a response status that is 2xx or 304, \<open>fresh\<close>
  should be the result of comparing the validators of the request with the headers of the
  response. The code does not do that. At a conditional \<open>GET\<close> whose validator matches (the
  status is 200 and the \<open>ETag\<close> of the response equals the \<open>If-None-Match\<close> of the
  request, so that comparing the headers gives true) \<open>fresh\<close> is false: the status it
  tests is \<open>this.res.status\<close>, which is undefined.
\<close>

theorem fresh_ignores_matching_validator:
  "req_method (req conditional_ctx) = ''GET'' \<and>
   get_status conditional_ctx = 200 \<and>
   req_headers (req conditional_ctx) ''if-none-match'' = Some ([CHR 0x22] @ ''abc'' @ [CHR 0x22]) \<and>
   get_headers conditional_ctx ''etag'' = Some (HStr ([CHR 0x22] @ ''abc'' @ [CHR 0x22])) \<and>
   fresh packages (Some (req_headers (req conditional_ctx))) (Some (get_headers conditional_ctx))
     = Inr True \<and>
   get_fresh packages conditional_ctx = Inr False"
  by code_simp

text \<open>
  C9, as the code has it. \<open>ips\<close> is the one-element list of the socket's remote address
  when the application does not trust proxies. When it does, \<open>ips\<close> is the
  \<open>X-Forwarded-For\<close> header split at its commas (no element holds a comma) when the header
  is there and not empty, and the empty list when the header is absent or empty.
\<close>

theorem ips_by_proxy_trust:
  "(\<not> proxy c \<longrightarrow> get_ips c = [remoteAddress (req c)]) \<and>
   (proxy c \<and> req_headers (req c) ''x-forwarded-for'' = Some forwarded \<and> forwarded \<noteq> [] \<longrightarrow>
      get_ips c = split_commas forwarded \<and> (\<forall>ip \<in> set (get_ips c). CHR '','' \<notin> set ip)) \<and>
   (proxy c \<and> (req_headers (req c) ''x-forwarded-for'' = None \<or>
                req_headers (req c) ''x-forwarded-for'' = Some []) \<longrightarrow>
      get_ips c = [])"
proof (intro conjI impI)
  show "get_ips c = [remoteAddress (req c)]" if "\<not> proxy c"
    using that by (simp add: get_ips_def)
  show "get_ips c = []"
    if "proxy c \<and> (req_headers (req c) ''x-forwarded-for'' = None \<or>
                req_headers (req c) ''x-forwarded-for'' = Some [])"
    using that by (auto simp: get_ips_def request_get_def Let_def)
  assume f: "proxy c \<and> req_headers (req c) ''x-forwarded-for'' = Some forwarded \<and> forwarded \<noteq> []"
  then show ips: "get_ips c = split_commas forwarded"
    by (simp add: get_ips_def request_get_def Let_def)
  show "\<forall>ip \<in> set (get_ips c). CHR '','' \<notin> set ip"
    unfolding ips split_commas_def using split_from_no_comma [of "[]" forwarded] by simp
qed

theorem ips_by_proxy_trust_witness:
  "\<not> proxy new_ctx \<and> get_ips new_ctx = [''10.0.0.7''] \<and>
   proxy proxied_ctx \<and>
   req_headers (req proxied_ctx) ''x-forwarded-for'' = Some ''client, proxy1 ,proxy2'' \<and>
   get_ips proxied_ctx = [''client'', ''proxy1'', ''proxy2''] \<and>
   proxy direct_ctx \<and> req_headers (req direct_ctx) ''x-forwarded-for'' = None \<and>
   get_ips direct_ctx = []"
proof -
  have a: "\<not> proxy new_ctx" "remoteAddress (req new_ctx) = ''10.0.0.7''"
    by (simp_all add: new_ctx_def createContext_def a_request_def)
  have b: "proxy proxied_ctx"
    "req_headers (req proxied_ctx) ''x-forwarded-for'' = Some ''client, proxy1 ,proxy2''"
    by (simp_all add: proxied_ctx_def createContext_def)
  have s: "split_commas ''client, proxy1 ,proxy2'' = [''client'', ''proxy1'', ''proxy2'']"
    by code_simp
  have c: "proxy direct_ctx" "req_headers (req direct_ctx) ''x-forwarded-for'' = None"
    by (simp_all add: direct_ctx_def createContext_def a_request_def)
  from ips_by_proxy_trust [of new_ctx] a
  have 1: "get_ips new_ctx = [''10.0.0.7'']" by simp
  from ips_by_proxy_trust [of proxied_ctx "''client, proxy1 ,proxy2''"] b s
  have 2: "get_ips proxied_ctx = [''client'', ''proxy1'', ''proxy2'']" by simp
  from ips_by_proxy_trust [of direct_ctx] c
  have 3: "get_ips direct_ctx = []" by simp
  from a b c 1 2 3 show ?thesis by simp
qed

text \<open>
  C9 as it is stated fails when the application trusts proxies and the request has no
  \<open>X-Forwarded-For\<close> header: the result is the empty list, not the socket's address.
\<close>

theorem ips_without_forwarded_counterexample:
  "proxy direct_ctx \<and> req_headers (req direct_ctx) ''x-forwarded-for'' = None \<and>
   remoteAddress (req direct_ctx) = ''10.0.0.7'' \<and>
   get_ips direct_ctx = [] \<and>
   get_ips direct_ctx \<noteq> [remoteAddress (req direct_ctx)]"
  by code_simp

text \<open>
  C10. Once the headers are sent, setting the status to any value, a number or not,
  registered or not, returns without throwing and leaves the context as it is: status
  code, explicit-status flag and body keep their values, and the checks of the setter are
  not reached.
\<close>

theorem status_ignored_once_sent:
  "get_headersSent c \<Longrightarrow> set_status d v c = (Normal, c)"
  by (simp add: set_status.simps [of d v c])

theorem status_ignored_once_sent_witness:
  "get_headersSent sent_ctx \<and>
   set_status packages (JStr ''200'') sent_ctx = (Normal, sent_ctx) \<and>
   set_status packages (JNum 999) sent_ctx = (Normal, sent_ctx) \<and>
   set_status packages (JNum 500) sent_ctx = (Normal, sent_ctx)"
  using sent_ctx_sent
    status_ignored_once_sent [OF sent_ctx_sent, of packages "JStr ''200''"]
    status_ignored_once_sent [OF sent_ctx_sent, of packages "JNum 999"]
    status_ignored_once_sent [OF sent_ctx_sent, of packages "JNum 500"]
  by simp

end
